theory Spec2Isabelle
  imports Main "HOL-Library.AList" "HOL-Library.Code_Target_Nat"
begin

section \<open>Strings as the interpreter handles them\<close>

text \<open>
  The harmoniser (\<^verbatim>\<open>bin/harmonise.py\<close>) works on Python strings. A string is modelled
  as a list of characters whose code points lie below 256; \<open>py_ord\<close> is the code point.
  The library functions the script calls (\<^verbatim>\<open>str.split\<close>, \<^verbatim>\<open>str.lower\<close>, \<^verbatim>\<open>int\<close>,
  \<^verbatim>\<open>Decimal\<close>, \<^verbatim>\<open>re.sub\<close> with the script's own patterns, \<^verbatim>\<open>datetime.strptime\<close>) are
  written out for that range; the two capabilities the script imports from third-party
  packages (URL validation and reprojection) are parameters.
\<close>

definition py_ord :: "char \<Rightarrow> nat" where
  "py_ord c = of_char c"

definition isspace :: "char \<Rightarrow> bool" where
  \<comment> \<open>\<^verbatim>\<open>str.isspace\<close>, which is also the class \<^verbatim>\<open>\s\<close> of the \<^verbatim>\<open>re\<close> module\<close>
  "isspace c = (py_ord c \<in> {9, 10, 11, 12, 13, 28, 29, 30, 31, 32, 133, 160})"

definition isdigit :: "char \<Rightarrow> bool" where
  "isdigit c = (48 \<le> py_ord c \<and> py_ord c \<le> 57)"

definition digit_val :: "char \<Rightarrow> nat" where
  "digit_val c = py_ord c - 48"

definition digit_char :: "nat \<Rightarrow> char" where
  "digit_char d = char_of (48 + d)"

definition lower_char :: "char \<Rightarrow> char" where
  "lower_char c =
     (let n = py_ord c
      in if (65 \<le> n \<and> n \<le> 90) \<or> (192 \<le> n \<and> n \<le> 214) \<or> (216 \<le> n \<and> n \<le> 222)
         then char_of (n + 32) else c)"

definition lower :: "string \<Rightarrow> string" where
  "lower s = map lower_char s"

fun split_ws :: "string \<Rightarrow> string \<Rightarrow> string list" where
  "split_ws cur [] = (if cur = [] then [] else [cur])"
| "split_ws cur (c # cs) =
     (if isspace c then (if cur = [] then split_ws [] cs else cur # split_ws [] cs)
      else split_ws (cur @ [c]) cs)"

definition split :: "string \<Rightarrow> string list" where
  \<comment> \<open>\<^verbatim>\<open>value.split()\<close>: the maximal runs of characters that are not whitespace\<close>
  "split s = split_ws [] s"

fun split_on_aux :: "char \<Rightarrow> string \<Rightarrow> string \<Rightarrow> string list" where
  "split_on_aux d cur [] = [cur]"
| "split_on_aux d cur (c # cs) =
     (if c = d then cur # split_on_aux d [] cs else split_on_aux d (cur @ [c]) cs)"

definition split_on :: "char \<Rightarrow> string \<Rightarrow> string list" where
  \<comment> \<open>\<^verbatim>\<open>value.split(d)\<close> for a separator of one character\<close>
  "split_on d s = split_on_aux d [] s"

fun join :: "string \<Rightarrow> string list \<Rightarrow> string" where
  "join sep [] = []"
| "join sep [x] = x"
| "join sep (x # y # ys) = x @ sep @ join sep (y # ys)"

definition rstrip :: "string \<Rightarrow> string \<Rightarrow> string" where
  "rstrip chars s = rev (dropWhile (\<lambda>c. c \<in> set chars) (rev s))"

definition strip :: "string \<Rightarrow> string \<Rightarrow> string" where
  "strip chars s = rstrip chars (dropWhile (\<lambda>c. c \<in> set chars) s)"

definition strip_ws :: "string \<Rightarrow> string" where
  "strip_ws s = rev (dropWhile isspace (rev (dropWhile isspace s)))"

fun startswith :: "string \<Rightarrow> string \<Rightarrow> bool" where
  "startswith s [] = True"
| "startswith [] (p # ps) = False"
| "startswith (c # cs) (p # ps) = (c = p \<and> startswith cs ps)"

fun contains :: "string \<Rightarrow> string \<Rightarrow> bool" where
  \<comment> \<open>\<^verbatim>\<open>sub in s\<close>\<close>
  "contains sub [] = (sub = [])"
| "contains sub (c # cs) = (startswith (c # cs) sub \<or> contains sub cs)"

fun replace :: "string \<Rightarrow> string \<Rightarrow> string \<Rightarrow> string" where
  \<comment> \<open>\<^verbatim>\<open>s.replace(old, new)\<close>; the script only replaces non-empty substrings, and an
      empty \<open>old\<close> is left out of the model\<close>
  "replace old new [] = []"
| "replace old new (c # cs) =
     (if old \<noteq> [] \<and> startswith (c # cs) old
      then new @ replace old new (drop (length old) (c # cs))
      else c # replace old new cs)"

fun str_nat :: "nat \<Rightarrow> string" where
  \<comment> \<open>the decimal digits of a natural number\<close>
  "str_nat n = (if n < 10 then [digit_char n] else str_nat (n div 10) @ [digit_char (n mod 10)])"

declare str_nat.simps [simp del]

definition str_int :: "int \<Rightarrow> string" where
  "str_int i = (if i < 0 then CHR ''-'' # str_nat (nat (- i)) else str_nat (nat i))"

definition nat_of_digits :: "string \<Rightarrow> nat" where
  "nat_of_digits ds = foldl (\<lambda>acc c. 10 * acc + digit_val c) 0 ds"

section \<open>Integers\<close>

definition int_space :: "char \<Rightarrow> bool" where
  \<comment> \<open>the whitespace \<^verbatim>\<open>int()\<close> strips from both ends of its argument\<close>
  "int_space c = (py_ord c \<in> {9, 10, 11, 12, 13, 32, 133, 160})"

fun int_digits :: "string \<Rightarrow> string option" where
  \<comment> \<open>one or more digits, single underscores allowed between two digits; the digits\<close>
  "int_digits [] = None"
| "int_digits [c] = (if isdigit c then Some [c] else None)"
| "int_digits (c # d # cs) =
     (if isdigit c
      then (if d = CHR ''_'' then map_option (Cons c) (int_digits cs)
            else map_option (Cons c) (int_digits (d # cs)))
      else None)"

definition max_str_digits :: nat where
  \<comment> \<open>the interpreter's default limit on the digits of an integer string\<close>
  "max_str_digits = 4300"

definition parse_sign :: "string \<Rightarrow> bool \<times> string" where
  "parse_sign s =
     (case s of
        [] \<Rightarrow> (False, [])
      | c # cs \<Rightarrow> if c = CHR ''-'' then (True, cs) else if c = CHR ''+'' then (False, cs)
                 else (False, c # cs))"

definition py_int :: "string \<Rightarrow> int option" where
  \<comment> \<open>\<^verbatim>\<open>int(value)\<close> on a string, base 10; \<open>None\<close> is the \<^verbatim>\<open>ValueError\<close>\<close>
  "py_int s =
     (let t = rev (dropWhile int_space (rev (dropWhile int_space s)));
          (neg, body) = parse_sign t
      in case int_digits body of
           None \<Rightarrow> None
         | Some ds \<Rightarrow>
             if length ds > max_str_digits then None
             else Some (if neg then - int (nat_of_digits ds) else int (nat_of_digits ds)))"

definition format_integer :: "int \<Rightarrow> string" where
  \<comment> \<open>\<^verbatim>\<open>str(int(value))\<close>\<close>
  "format_integer n = str_int n"

section \<open>Arbitrary-precision decimals\<close>

text \<open>
  A \<^verbatim>\<open>Decimal\<close> is a sign (\<open>True\<close> for minus), a coefficient and an exponent, or one of the
  special values. The arithmetic context is the library's default one: 28 digits of
  precision, rounding half to even, exponents between -999999 and 999999, and the
  invalid-operation signal raised as an exception.
\<close>

datatype decimal = Finite bool nat int | Infinity bool | NaN bool nat | SNaN bool nat

definition MAX_EMAX :: int where
  "MAX_EMAX = 999999999999999999"

definition MIN_ETINY :: int where
  "MIN_ETINY = - 1999999999999999997"

definition ctx_prec :: nat where
  "ctx_prec = 28"

definition ctx_emax :: int where
  "ctx_emax = 999999"

definition ctx_etiny :: int where
  "ctx_etiny = - 999999 - (int ctx_prec - 1)"

definition ndigits :: "nat \<Rightarrow> nat" where
  "ndigits c = length (str_nat c)"

definition parse_exponent :: "string \<Rightarrow> int option" where
  \<comment> \<open>what follows the exponent indicator: an optional sign and one or more digits\<close>
  "parse_exponent s =
     (let (neg, ds) = parse_sign s
      in if ds \<noteq> [] \<and> list_all isdigit ds
         then Some (if neg then - int (nat_of_digits ds) else int (nat_of_digits ds))
         else None)"

definition parse_finite :: "string \<Rightarrow> (nat \<times> int) option" where
  \<comment> \<open>digits with an optional point and an optional exponent part\<close>
  "parse_finite s =
     (let ip = takeWhile isdigit s; r1 = dropWhile isdigit s;
          (fp, r2) = (case r1 of
                        [] \<Rightarrow> ([], [])
                      | c # cs \<Rightarrow> if c = CHR ''.'' then (takeWhile isdigit cs, dropWhile isdigit cs)
                                 else ([], c # cs))
      in if ip = [] \<and> fp = [] then None
         else case r2 of
                [] \<Rightarrow> Some (nat_of_digits (ip @ fp), - int (length fp))
              | c # cs \<Rightarrow>
                  if c = CHR ''e'' \<or> c = CHR ''E''
                  then map_option (\<lambda>x. (nat_of_digits (ip @ fp), x - int (length fp)))
                         (parse_exponent cs)
                  else None)"

definition parse_special :: "bool \<Rightarrow> string \<Rightarrow> decimal option" where
  \<comment> \<open>infinities and NaNs, case-insensitively; a NaN may carry a payload of digits\<close>
  "parse_special neg s =
     (let l = lower s
      in if l = ''inf'' \<or> l = ''infinity'' then Some (Infinity neg)
         else if startswith l ''nan'' \<and> list_all isdigit (drop 3 l)
         then Some (NaN neg (nat_of_digits (drop 3 l)))
         else if startswith l ''snan'' \<and> list_all isdigit (drop 4 l)
         then Some (SNaN neg (nat_of_digits (drop 4 l)))
         else None)"

definition Decimal_str :: "string \<Rightarrow> decimal option" where
  \<comment> \<open>\<^verbatim>\<open>Decimal(value)\<close> on a string: whitespace is stripped from both ends, underscores
      are dropped, and the conversion must be exact; \<open>None\<close> is \<^verbatim>\<open>InvalidOperation\<close>\<close>
  "Decimal_str s =
     (let t = filter (\<lambda>c. c \<noteq> CHR ''_'') (strip_ws s);
          (neg, body) = parse_sign t
      in case parse_finite body of
           Some (c, e) \<Rightarrow>
             if e < MIN_ETINY then None
             else if c = 0 then (if e > MAX_EMAX then None else Some (Finite neg 0 e))
             else if e + int (ndigits c) - 1 > MAX_EMAX then None
             else Some (Finite neg c e)
         | None \<Rightarrow> parse_special neg body)"

datatype pyfloat = FloatFinite bool nat nat | FloatInf bool | FloatNaN

definition Decimal_float :: "pyfloat \<Rightarrow> decimal" where
  \<comment> \<open>\<^verbatim>\<open>Decimal(f)\<close> on a float: \<open>FloatFinite s n k\<close> is the float \<open>n / 2 ^ k\<close>, and
      the conversion is exact\<close>
  "Decimal_float f =
     (case f of
        FloatFinite s n k \<Rightarrow> Finite s (n * 5 ^ k) (- int k)
      | FloatInf s \<Rightarrow> Infinity s
      | FloatNaN \<Rightarrow> NaN False 0)"

definition round_half_even :: "nat \<Rightarrow> nat \<Rightarrow> nat" where
  \<comment> \<open>\<open>c / m\<close> rounded to the nearest integer, ties to the even one\<close>
  "round_half_even c m =
     (let q = c div m; r = c mod m
      in if 2 * r > m \<or> (2 * r = m \<and> odd q) then q + 1 else q)"

definition py_round :: "decimal \<Rightarrow> int \<Rightarrow> decimal option" where
  \<comment> \<open>\<^verbatim>\<open>round(d, precision)\<close>: \<^verbatim>\<open>quantize\<close> to the exponent \<open>- precision\<close> in the default
      context; \<open>None\<close> is \<^verbatim>\<open>InvalidOperation\<close>\<close>
  "py_round d precision =
     (case d of
        SNaN s p \<Rightarrow> None
      | NaN s p \<Rightarrow> Some (NaN s (p mod 10 ^ ctx_prec))
      | Infinity s \<Rightarrow> None
      | Finite s c e \<Rightarrow>
          (let t = - precision
           in if t > ctx_emax \<or> t < ctx_etiny then None
              else if c = 0 then Some (Finite s 0 t)
              else (let c' = (if e \<ge> t then c * 10 ^ nat (e - t)
                              else round_half_even c (10 ^ nat (t - e)))
                    in if ndigits c' > ctx_prec then None
                       else if t + int (ndigits c') - 1 > ctx_emax then None
                       else Some (Finite s c' t))))"

fun strip_zeros :: "nat \<Rightarrow> int \<Rightarrow> nat \<times> int" where
  "strip_zeros c e = (if c \<noteq> 0 \<and> c mod 10 = 0 then strip_zeros (c div 10) (e + 1) else (c, e))"

declare strip_zeros.simps [simp del]

definition dec_normalize :: "decimal \<Rightarrow> decimal option" where
  \<comment> \<open>\<^verbatim>\<open>d.normalize()\<close> on a value that fits the context, as every result of
      \<open>py_round\<close> does: trailing zeros of the coefficient go into the exponent, and a
      zero gets the exponent 0\<close>
  "dec_normalize d =
     (case d of
        SNaN s p \<Rightarrow> None
      | NaN s p \<Rightarrow> Some (NaN s p)
      | Infinity s \<Rightarrow> Some (Infinity s)
      | Finite s c e \<Rightarrow>
          if c = 0 then Some (Finite s 0 0)
          else (case strip_zeros c e of (c', e') \<Rightarrow> Some (Finite s c' e')))"

definition str_decimal :: "decimal \<Rightarrow> string" where
  \<comment> \<open>\<^verbatim>\<open>str(d)\<close>: plain notation when the exponent is at most 0 and the number is not
      too small, scientific notation otherwise\<close>
  "str_decimal d =
     (case d of
        Infinity s \<Rightarrow> (if s then ''-'' else []) @ ''Infinity''
      | NaN s p \<Rightarrow> (if s then ''-'' else []) @ ''NaN'' @ (if p = 0 then [] else str_nat p)
      | SNaN s p \<Rightarrow> (if s then ''-'' else []) @ ''sNaN'' @ (if p = 0 then [] else str_nat p)
      | Finite s c e \<Rightarrow>
          (let ds = str_nat c;
               leftdigits = e + int (length ds);
               dotplace = (if e \<le> 0 \<and> leftdigits > - 6 then leftdigits else 1);
               intpart = (if dotplace \<le> 0 then ''0''
                          else if dotplace \<ge> int (length ds)
                          then ds @ replicate (nat (dotplace - int (length ds))) CHR ''0''
                          else take (nat dotplace) ds);
               fracpart = (if dotplace \<le> 0
                           then ''.'' @ replicate (nat (- dotplace)) CHR ''0'' @ ds
                           else if dotplace \<ge> int (length ds) then []
                           else ''.'' @ drop (nat dotplace) ds);
               ex = (if leftdigits = dotplace then []
                     else ''E'' @ (if leftdigits - dotplace < 0 then [] else ''+'')
                          @ str_int (leftdigits - dotplace))
           in (if s then ''-'' else []) @ intpart @ fracpart @ ex))"

datatype number = Dec decimal | Flt pyfloat

definition Decimal_number :: "number \<Rightarrow> decimal" where
  \<comment> \<open>\<^verbatim>\<open>Decimal(value)\<close> on a value that is a \<^verbatim>\<open>Decimal\<close> or a float\<close>
  "Decimal_number x = (case x of Dec d \<Rightarrow> d | Flt f \<Rightarrow> Decimal_float f)"

definition format_decimal :: "number \<Rightarrow> int \<Rightarrow> string option" where
  \<comment> \<open>\<^verbatim>\<open>str(round(Decimal(value), precision).normalize())\<close>; \<open>None\<close> is the
      \<^verbatim>\<open>InvalidOperation\<close> that \<^verbatim>\<open>round\<close> raises\<close>
  "format_decimal value precision =
     (case py_round (Decimal_number value) precision of
        None \<Rightarrow> None
      | Some r \<Rightarrow> map_option str_decimal (dec_normalize r))"

section \<open>The script's regular expressions\<close>

definition newline :: char where
  "newline = CHR 0x0A"

definition integer_regex_match :: "string \<Rightarrow> string option" where
  \<comment> \<open>\<^verbatim>\<open>\.0+$\<close> matched at the start of \<open>s\<close>: a point, one or more zeros, and then the end
      of the string or a newline that ends it; the result is what follows the match\<close>
  "integer_regex_match s =
     (case s of
        [] \<Rightarrow> None
      | c # cs \<Rightarrow>
          if c = CHR ''.''
          then (let zs = takeWhile (\<lambda>x. x = CHR ''0'') cs; rest = dropWhile (\<lambda>x. x = CHR ''0'') cs
                in if zs = [] then None
                   else if rest = [] \<or> rest = [newline] then Some rest else None)
          else None)"

fun integer_regex_sub :: "string \<Rightarrow> string" where
  \<comment> \<open>\<^verbatim>\<open>normalise_integer.regex.sub("", value, 1)\<close>: the leftmost match is removed\<close>
  "integer_regex_sub [] = []"
| "integer_regex_sub (c # cs) =
     (case integer_regex_match (c # cs) of
        Some rest \<Rightarrow> rest
      | None \<Rightarrow> c # integer_regex_sub cs)"

definition enum_class :: "char \<Rightarrow> bool" where
  \<comment> \<open>the characters of \<^verbatim>\<open>[a-z0-9-_ ]\<close>\<close>
  "enum_class c =
     ((97 \<le> py_ord c \<and> py_ord c \<le> 122) \<or> isdigit c \<or> c = CHR ''-'' \<or> c = CHR ''_''
      \<or> c = CHR '' '')"

fun enum_strip_sub :: "bool \<Rightarrow> string \<Rightarrow> string" where
  \<comment> \<open>\<^verbatim>\<open>normalise_enum_value.strip.sub(" ", value)\<close>: every maximal run of characters
      outside the class becomes one space; the flag says that such a run is open\<close>
  "enum_strip_sub inrun [] = []"
| "enum_strip_sub inrun (c # cs) =
     (if enum_class c then c # enum_strip_sub False cs
      else if inrun then enum_strip_sub True cs
      else CHR '' '' # enum_strip_sub True cs)"

function separator_sub :: "char \<Rightarrow> string \<Rightarrow> string \<Rightarrow> string" where
  \<comment> \<open>\<^verbatim>\<open>(\s*d\s*){1,}\<close> substituted by \<open>rep\<close>: a match is a maximal run of whitespace and
      separators \<open>d\<close> that holds at least one separator\<close>
  "separator_sub d rep [] = []"
| "separator_sub d rep (c # cs) =
     (if d \<in> set (takeWhile (\<lambda>x. isspace x \<or> x = d) (c # cs))
      then rep @ separator_sub d rep (dropWhile (\<lambda>x. isspace x \<or> x = d) cs)
      else c # separator_sub d rep cs)"
  by pat_completeness auto
termination
  by (relation "measure (\<lambda>(d, rep, s). length s)")
     (auto simp: less_Suc_eq_le length_dropWhile_le)

definition end_of_uri_sub :: "string \<Rightarrow> string" where
  \<comment> \<open>\<^verbatim>\<open>end_of_uri.regex.sub("", value)\<close> for \<^verbatim>\<open>.*/\<close>: the point does not match a newline,
      so on every line all that comes up to its last slash goes\<close>
  "end_of_uri_sub s =
     join [newline]
       (map (\<lambda>seg. if CHR ''/'' \<in> set seg then rev (takeWhile (\<lambda>c. c \<noteq> CHR ''/'') (rev seg))
                   else seg)
            (split_on newline s))"

section \<open>Dates\<close>

text \<open>
  \<^verbatim>\<open>datetime.strptime\<close> turns a format into a regular expression, matches it at the start
  of the value ignoring case, and refuses a match that leaves characters over. The
  expression is matched by backtracking, so the model lists the ways an item can match
  in the order the matcher tries them and takes the first way that lets the rest of the
  format match.
\<close>

datatype item = Lit char | Space | Dir char

fun compile_format :: "string \<Rightarrow> item list" where
  \<comment> \<open>whitespace of the format stands for \<^verbatim>\<open>\s+\<close>, a percent with its letter for a
      directive, any other character for itself\<close>
  "compile_format [] = []"
| "compile_format (c # cs) =
     (if c = CHR ''%'' then (case cs of [] \<Rightarrow> [] | d # rest \<Rightarrow> Dir d # compile_format rest)
      else if isspace c
      then (case compile_format cs of
              Space # r \<Rightarrow> Space # r
            | r \<Rightarrow> Space # r)
      else Lit c # compile_format cs)"

type_synonym alternative = "(char \<Rightarrow> bool) list"

definition dig :: "char \<Rightarrow> bool" where
  "dig c = isdigit c"

definition rng :: "char \<Rightarrow> char \<Rightarrow> char \<Rightarrow> bool" where
  "rng lo hi c = (py_ord lo \<le> py_ord c \<and> py_ord c \<le> py_ord hi)"

definition ch :: "char \<Rightarrow> char \<Rightarrow> bool" where
  \<comment> \<open>a literal character of the expression, matched ignoring case\<close>
  "ch l c = (lower_char c = lower_char l)"

definition word :: "string \<Rightarrow> alternative" where
  "word w = map ch w"

definition a_month :: "string list" where
  "a_month = [''jan'', ''feb'', ''mar'', ''apr'', ''may'', ''jun'',
              ''jul'', ''aug'', ''sep'', ''oct'', ''nov'', ''dec'']"

definition f_month :: "string list" where
  "f_month = [''january'', ''february'', ''march'', ''april'', ''may'', ''june'', ''july'',
              ''august'', ''september'', ''october'', ''november'', ''december'']"

definition directive :: "char \<Rightarrow> alternative list" where
  \<comment> \<open>the alternatives of a directive's expression, in the order they are tried; the
      month names are those of the C locale, the longest first\<close>
  "directive d =
     (if d = CHR ''Y'' then [[dig, dig, dig, dig]]
      else if d = CHR ''y'' then [[dig, dig]]
      else if d = CHR ''m'' then
        [[ch CHR ''1'', rng CHR ''0'' CHR ''2''], [ch CHR ''0'', rng CHR ''1'' CHR ''9''],
         [rng CHR ''1'' CHR ''9'']]
      else if d = CHR ''d'' then
        [[ch CHR ''3'', rng CHR ''0'' CHR ''1''], [rng CHR ''1'' CHR ''2'', dig],
         [ch CHR ''0'', rng CHR ''1'' CHR ''9''], [rng CHR ''1'' CHR ''9''],
         [ch CHR '' '', rng CHR ''1'' CHR ''9'']]
      else if d = CHR ''H'' then
        [[ch CHR ''2'', rng CHR ''0'' CHR ''3''], [rng CHR ''0'' CHR ''1'', dig], [dig]]
      else if d = CHR ''M'' then [[rng CHR ''0'' CHR ''5'', dig], [dig]]
      else if d = CHR ''S'' then
        [[ch CHR ''6'', rng CHR ''0'' CHR ''1''], [rng CHR ''0'' CHR ''5'', dig], [dig]]
      else if d = CHR ''b'' then map word a_month
      else if d = CHR ''B'' then
        map word [''september'', ''february'', ''november'', ''december'', ''january'',
                  ''october'', ''august'', ''march'', ''april'', ''june'', ''july'', ''may'']
      else [])"

fun match_alternative :: "alternative \<Rightarrow> string \<Rightarrow> bool" where
  "match_alternative [] s = True"
| "match_alternative (p # ps) [] = False"
| "match_alternative (p # ps) (c # cs) = (p c \<and> match_alternative ps cs)"

type_synonym capture = "(char \<times> string) list"

definition match_item :: "item \<Rightarrow> string \<Rightarrow> (capture \<times> string) list" where
  \<comment> \<open>the ways one item matches at the start of \<open>s\<close>: the groups it captures and the
      rest of the string; \<^verbatim>\<open>\s+\<close> takes the longest run of whitespace first\<close>
  "match_item i s =
     (case i of
        Lit l \<Rightarrow> (case s of [] \<Rightarrow> [] | c # cs \<Rightarrow> if ch l c then [([], cs)] else [])
      | Space \<Rightarrow>
          map (\<lambda>k. ([], drop k s)) (rev [1 ..< Suc (length (takeWhile isspace s))])
      | Dir d \<Rightarrow>
          map (\<lambda>a. ([(d, take (length a) s)], drop (length a) s))
            (filter (\<lambda>a. match_alternative a s) (directive d)))"

fun match_items :: "item list \<Rightarrow> string \<Rightarrow> (capture \<times> string) list" where
  "match_items [] s = [([], s)]"
| "match_items (i # is) s =
     concat (map (\<lambda>(cap, rest). map (\<lambda>(caps, r). (cap @ caps, r)) (match_items is rest))
                 (match_item i s))"

record date =
  year :: nat
  month :: nat
  day :: nat

definition index_of :: "string list \<Rightarrow> string \<Rightarrow> nat" where
  \<comment> \<open>the position of a month name, counted from 1\<close>
  "index_of names w = Suc (length (takeWhile (\<lambda>n. n \<noteq> w) names))"

definition isleap :: "nat \<Rightarrow> bool" where
  "isleap y = (y mod 4 = 0 \<and> (if y mod 100 = 0 then y mod 400 = 0 else True))"

definition days_in_month :: "nat \<Rightarrow> nat \<Rightarrow> nat" where
  "days_in_month y m =
     (if m = 2 then (if isleap y then 29 else 28)
      else if m \<in> {4, 6, 9, 11} then 30 else 31)"

definition found_group :: "capture \<Rightarrow> char \<Rightarrow> string option" where
  "found_group caps d = map_of caps d"

definition group_nat :: "capture \<Rightarrow> char \<Rightarrow> nat \<Rightarrow> nat" where
  \<comment> \<open>\<^verbatim>\<open>int(found_dict[d])\<close>, or the default when the format has no such directive; a
      day may come with a leading space\<close>
  "group_nat caps d dflt =
     (case found_group caps d of
        None \<Rightarrow> dflt
      | Some w \<Rightarrow> nat_of_digits (filter isdigit w))"

definition strptime :: "string \<Rightarrow> string \<Rightarrow> date option" where
  \<comment> \<open>\<^verbatim>\<open>datetime.strptime(value, pattern)\<close> for the directives the script uses; \<open>None\<close> is
      the \<^verbatim>\<open>ValueError\<close>: no match, characters left over, or a date or a time that does
      not exist. A year of two digits up to 68 is in the century 2000.\<close>
  "strptime data_string format =
     (case match_items (compile_format format) data_string of
        [] \<Rightarrow> None
      | (caps, rest) # _ \<Rightarrow>
          if rest \<noteq> [] then None
          else (let y = (case found_group caps CHR ''y'' of
                           Some w \<Rightarrow> (if nat_of_digits w \<le> 68 then nat_of_digits w + 2000
                                      else nat_of_digits w + 1900)
                         | None \<Rightarrow> group_nat caps CHR ''Y'' 1900);
                    m = (case found_group caps CHR ''B'' of
                           Some w \<Rightarrow> index_of f_month (lower w)
                         | None \<Rightarrow>
                             (case found_group caps CHR ''b'' of
                                Some w \<Rightarrow> index_of a_month (lower w)
                              | None \<Rightarrow> group_nat caps CHR ''m'' 1));
                    d = group_nat caps CHR ''d'' 1;
                    second = group_nat caps CHR ''S'' 0
                in if 1 \<le> y \<and> y \<le> 9999 \<and> 1 \<le> m \<and> m \<le> 12 \<and> 1 \<le> d
                      \<and> d \<le> days_in_month y m \<and> second \<le> 59
                   then Some \<lparr>year = y, month = m, day = d\<rparr>
                   else None))"

definition zero_pad :: "nat \<Rightarrow> string \<Rightarrow> string" where
  "zero_pad w s = replicate (w - length s) CHR ''0'' @ s"

definition strftime :: "date \<Rightarrow> string" where
  \<comment> \<open>\<^verbatim>\<open>date.strftime("%Y-%m-%d")\<close>. The C library writes the year: glibc does not pad
      it, so the year 999 gives \<^verbatim>\<open>999-01-01\<close>; month and day have two digits\<close>
  "strftime dt =
     str_nat (year dt) @ ''-'' @ zero_pad 2 (str_nat (month dt)) @ ''-''
       @ zero_pad 2 (str_nat (day dt))"

section \<open>The schema, the reference data and the state of a run\<close>

datatype py_error =
    KeyError string
  | ValueError string
  | NameError string
  | InvalidOperation
  | ProjError

type_synonym 'v dict = "(string \<times> 'v) list"
  \<comment> \<open>a dictionary with string keys, in insertion order\<close>

definition getitem :: "'v dict \<Rightarrow> string \<Rightarrow> py_error + 'v" where
  \<comment> \<open>\<^verbatim>\<open>d[k]\<close>\<close>
  "getitem d k = (case map_of d k of None \<Rightarrow> Inl (KeyError k) | Some v \<Rightarrow> Inr v)"

definition get :: "'v dict \<Rightarrow> string \<Rightarrow> 'v \<Rightarrow> 'v" where
  \<comment> \<open>\<^verbatim>\<open>d.get(k, dflt)\<close>\<close>
  "get d k dflt = (case map_of d k of None \<Rightarrow> dflt | Some v \<Rightarrow> v)"

definition setitem :: "'v dict \<Rightarrow> string \<Rightarrow> 'v \<Rightarrow> 'v dict" where
  \<comment> \<open>\<^verbatim>\<open>d[k] = v\<close>: a new key goes to the end, an old one keeps its place\<close>
  "setitem d k v = AList.update k v d"

definition setdefault :: "'v dict \<Rightarrow> string \<Rightarrow> 'v \<Rightarrow> 'v dict" where
  "setdefault d k v = (case map_of d k of None \<Rightarrow> d @ [(k, v)] | Some _ \<Rightarrow> d)"

text \<open>
  One field of the schema. \<open>ftype\<close>, \<open>fformat\<close> and \<open>constraints_enum\<close> are the keys
  \<^verbatim>\<open>type\<close>, \<^verbatim>\<open>format\<close> and \<^verbatim>\<open>constraints.enum\<close>, absent when \<open>None\<close>; the three \<open>dl_\<close>
  fields are the keys \<^verbatim>\<open>strip\<close>, \<^verbatim>\<open>precision\<close> and \<^verbatim>\<open>format\<close> of the field's
  \<^verbatim>\<open>digital-land\<close> block. A strip pattern is given by what \<^verbatim>\<open>re.sub(pattern, "", value)\<close>
  does to a value.
\<close>

record field_spec =
  name :: string
  ftype :: "string option"
  fformat :: "string option"
  constraints_enum :: "string list option"
  dl_strip :: "(string \<Rightarrow> string) list"
  dl_precision :: "int option"
  dl_format :: "string option"

record schema =
  schema_fields :: "field_spec list"
  duplicate :: "string list"

text \<open>
  The two imported capabilities: \<^verbatim>\<open>validators.url\<close>, and the transformer from the
  British national grid to longitude and latitude, which returns a pair of floats
  (latitude first) or fails.
\<close>

record env =
  url :: "string \<Rightarrow> bool"
  transform :: "decimal \<Rightarrow> decimal \<Rightarrow> py_error + pyfloat \<times> pyfloat"

record issue =
  issue_row_number :: nat
  issue_field :: string
  issue_datatype :: string
  issue_value :: string

text \<open>
  The module's global names and the two files it writes. \<open>field_global\<close> is the
  module-level name \<^verbatim>\<open>field\<close>: unbound until the main loop's
  \<^verbatim>\<open>for field in fieldnames\<close> binds it.
\<close>

record state =
  row_number :: nat
  log_rows :: "issue list"
  output_rows :: "string list list"
  field_global :: "string option"
  organisation_uri :: "string dict"
  field_enum :: "string dict dict"
  field_value :: "string dict dict"
  default_values :: "string dict"

definition initial_state :: state where
  "initial_state =
     \<lparr>row_number = 0, log_rows = [], output_rows = [], field_global = None,
      organisation_uri = [], field_enum = [], field_value = [], default_values = []\<rparr>"

datatype 'a result = Return 'a state | Raise py_error state

definition fields :: "schema \<Rightarrow> string \<Rightarrow> field_spec option" where
  \<comment> \<open>\<^verbatim>\<open>{field["name"]: field for field in schema["fields"]}\<close>: the last field of a name
      is the one the dictionary keeps\<close>
  "fields sch = map_of (rev (map (\<lambda>f. (name f, f)) (schema_fields sch)))"

definition fieldnames :: "schema \<Rightarrow> string list" where
  "fieldnames sch = map name (schema_fields sch)"

definition log_issue :: "string \<Rightarrow> string \<Rightarrow> string \<Rightarrow> state \<Rightarrow> state" where
  "log_issue field datatype_name value st =
     st\<lparr>log_rows := log_rows st @
          [\<lparr>issue_row_number = row_number st, issue_field = field,
            issue_datatype = datatype_name, issue_value = value\<rparr>]\<rparr>"

section \<open>The normalisers\<close>

definition normalise_integer :: "string \<Rightarrow> string \<Rightarrow> state \<Rightarrow> string result" where
  "normalise_integer field value st =
     (let value = integer_regex_sub value
      in case py_int value of
           None \<Rightarrow> Return [] (log_issue field ''integer'' value st)
         | Some n \<Rightarrow> Return (format_integer n) st)"

definition normalise_decimal :: "string \<Rightarrow> string \<Rightarrow> int \<Rightarrow> state \<Rightarrow> string result" where
  \<comment> \<open>only the parsing is inside the \<^verbatim>\<open>try\<close>; \<^verbatim>\<open>format_decimal(d)\<close> is called without
      the \<open>precision\<close> argument, so with its default 6\<close>
  "normalise_decimal field value precision st =
     (case Decimal_str value of
        None \<Rightarrow> Return [] (log_issue field ''decimal'' value st)
      | Some d \<Rightarrow>
          (case format_decimal (Dec d) 6 of
             None \<Rightarrow> Raise InvalidOperation st
           | Some s \<Rightarrow> Return s st))"

type_synonym fraction = "int \<times> int"
  \<comment> \<open>a numerator and a positive denominator\<close>

definition frac_less :: "fraction \<Rightarrow> fraction \<Rightarrow> bool" where
  "frac_less a b = (fst a * snd b < fst b * snd a)"

definition signed :: "bool \<Rightarrow> nat \<Rightarrow> int" where
  "signed s n = (if s then - int n else int n)"

definition decimal_fraction :: "bool \<Rightarrow> nat \<Rightarrow> int \<Rightarrow> fraction" where
  "decimal_fraction s c e =
     (if e \<ge> 0 then (signed s c * 10 ^ nat e, 1) else (signed s c, 10 ^ nat (- e)))"

definition lt :: "number \<Rightarrow> fraction \<Rightarrow> py_error + bool" where
  \<comment> \<open>\<^verbatim>\<open>x < k\<close> for a constant \<open>k\<close>: exact; a decimal NaN raises, a float NaN is not
      less than anything\<close>
  "lt x k =
     (case x of
        Dec (Finite s c e) \<Rightarrow> Inr (frac_less (decimal_fraction s c e) k)
      | Dec (Infinity s) \<Rightarrow> Inr s
      | Dec (NaN s p) \<Rightarrow> Inl InvalidOperation
      | Dec (SNaN s p) \<Rightarrow> Inl InvalidOperation
      | Flt (FloatFinite s n j) \<Rightarrow> Inr (frac_less (signed s n, 2 ^ j) k)
      | Flt (FloatInf s) \<Rightarrow> Inr s
      | Flt FloatNaN \<Rightarrow> Inr False)"

definition gt :: "number \<Rightarrow> fraction \<Rightarrow> py_error + bool" where
  "gt x k =
     (case x of
        Dec (Finite s c e) \<Rightarrow> Inr (frac_less k (decimal_fraction s c e))
      | Dec (Infinity s) \<Rightarrow> Inr (\<not> s)
      | Dec (NaN s p) \<Rightarrow> Inl InvalidOperation
      | Dec (SNaN s p) \<Rightarrow> Inl InvalidOperation
      | Flt (FloatFinite s n j) \<Rightarrow> Inr (frac_less k (signed s n, 2 ^ j))
      | Flt (FloatInf s) \<Rightarrow> Inr (\<not> s)
      | Flt FloatNaN \<Rightarrow> Inr False)"

definition and_then :: "py_error + bool \<Rightarrow> py_error + bool \<Rightarrow> py_error + bool" where
  \<comment> \<open>\<^verbatim>\<open>a and b\<close>: \<open>b\<close> is looked at only when \<open>a\<close> is true\<close>
  "and_then a b = (case a of Inl e \<Rightarrow> Inl e | Inr False \<Rightarrow> Inr False | Inr True \<Rightarrow> b)"

definition within_england :: "number \<Rightarrow> number \<Rightarrow> py_error + bool" where
  "within_england geox geoy =
     and_then (gt geoy (99, 2)) (and_then (lt geoy (56, 1))
       (and_then (gt geox (- 7, 1)) (lt geox (2, 1))))"

definition geometry_result :: "number \<Rightarrow> number \<Rightarrow> string dict \<Rightarrow> state \<Rightarrow> string dict result"
  where
  \<comment> \<open>the last three lines of \<^verbatim>\<open>normalise_geometry\<close>\<close>
  "geometry_result lon lat row st =
     (case format_decimal lon 6 of
        None \<Rightarrow> Raise InvalidOperation st
      | Some x \<Rightarrow>
          (case format_decimal lat 6 of
             None \<Rightarrow> Raise InvalidOperation st
           | Some y \<Rightarrow> Return (setitem (setitem row ''GeoX'' x) ''GeoY'' y) st))"

definition geometry_log :: "string dict \<Rightarrow> state \<Rightarrow> string dict result" where
  \<comment> \<open>\<^verbatim>\<open>log_issue("GeoX,GeoY", "OSGB", ",".join([row["GeoX"], row["GeoY"]]))\<close> and the
      return that follows it; \<open>row\<close> is the row as it is at that line\<close>
  "geometry_log row st =
     (case getitem row ''GeoX'' of
        Inl e \<Rightarrow> Raise e st
      | Inr x \<Rightarrow>
          (case getitem row ''GeoY'' of
             Inl e \<Rightarrow> Raise e st
           | Inr y \<Rightarrow> Return row (log_issue ''GeoX,GeoY'' ''OSGB'' (join '','' [x, y]) st)))"

definition geometry_reproject ::
  "env \<Rightarrow> decimal \<Rightarrow> decimal \<Rightarrow> string dict \<Rightarrow> state \<Rightarrow> string dict result
     \<Rightarrow> string dict result" where
  \<comment> \<open>\<^verbatim>\<open>lat, lon = osgb_to_wgs84.transform(x, y)\<close> and the test that follows it; \<open>otherwise\<close>
      is what the script goes on with when the point is not within England\<close>
  "geometry_reproject ev x y row st otherwise =
     (case transform ev x y of
        Inl e \<Rightarrow> Raise e st
      | Inr (lat, lon) \<Rightarrow>
          (case within_england (Flt lon) (Flt lat) of
             Inl e \<Rightarrow> Raise e st
           | Inr ok \<Rightarrow> if ok then geometry_result (Flt lon) (Flt lat) row st else otherwise))"

definition geometry_resolve ::
  "env \<Rightarrow> decimal \<Rightarrow> decimal \<Rightarrow> string dict \<Rightarrow> state \<Rightarrow> string dict result" where
  \<comment> \<open>the \<^verbatim>\<open>if\<close>, \<^verbatim>\<open>elif\<close>, \<^verbatim>\<open>else\<close> of \<^verbatim>\<open>normalise_geometry\<close>: as given, swapped,
      reprojected, swapped and reprojected, and the log when all four fail\<close>
  "geometry_resolve ev geox geoy row st =
     (case within_england (Dec geox) (Dec geoy) of
        Inl e \<Rightarrow> Raise e st
      | Inr ok \<Rightarrow>
          if ok then geometry_result (Dec geox) (Dec geoy) row st
          else (case within_england (Dec geoy) (Dec geox) of
                  Inl e \<Rightarrow> Raise e st
                | Inr ok \<Rightarrow>
                    if ok then geometry_result (Dec geoy) (Dec geox) row st
                    else geometry_reproject ev geox geoy row st
                           (geometry_reproject ev geoy geox row st (geometry_log row st))))"

definition normalise_geometry :: "env \<Rightarrow> string dict \<Rightarrow> state \<Rightarrow> string dict result" where
  \<comment> \<open>both fields are blanked before any test; \<^verbatim>\<open>isinstance(geox, str)\<close> is never true of
      a \<^verbatim>\<open>Decimal\<close>\<close>
  "normalise_geometry ev row st =
     (if get row ''GeoX'' [] = [] \<or> get row ''GeoY'' [] = [] then Return row st
      else (case Decimal_str (get row ''GeoX'' []) of
              None \<Rightarrow> Raise InvalidOperation st
            | Some geox \<Rightarrow>
                (case Decimal_str (get row ''GeoY'' []) of
                   None \<Rightarrow> Raise InvalidOperation st
                 | Some geoy \<Rightarrow>
                     geometry_resolve ev geox geoy
                       (setitem (setitem row ''GeoX'' []) ''GeoY'' []) st)))"

definition lower_uri :: "string \<Rightarrow> string" where
  "lower_uri value = lower (concat (split value))"

definition end_of_uri :: "string \<Rightarrow> string" where
  "end_of_uri value = end_of_uri_sub (lower (rstrip ''/'' value))"

definition normalise_organisation_uri :: "string \<Rightarrow> string \<Rightarrow> state \<Rightarrow> string result" where
  "normalise_organisation_uri field fieldvalue st =
     (let value = lower_uri fieldvalue
      in case map_of (organisation_uri st) value of
           Some uri \<Rightarrow> Return uri st
         | None \<Rightarrow>
             (case map_of (organisation_uri st) (end_of_uri value) of
                Some uri \<Rightarrow> Return uri st
              | None \<Rightarrow> Return [] (log_issue field ''opendatacommunities-uri'' fieldvalue st)))"

definition date_patterns :: "string list" where
  "date_patterns =
     [''%Y-%m-%d'',
      ''%Y%m%d'',
      ''%Y-%m-%dT%H:%M:%S.000Z'',
      ''%Y-%m-%dT%H:%M:%SZ'',
      ''%Y-%m-%dT%H:%M:%S'',
      ''%Y-%m-%d %H:%M:%S'',
      ''%Y/%m/%d'',
      ''%Y %m %d'',
      ''%Y.%m.%d'',
      ''%Y-%d-%m'',
      ''%Y'',
      ''%Y.0'',
      ''%d/%m/%Y %H:%M:%S'',
      ''%d/%m/%Y %H:%M'',
      ''%d-%m-%Y'',
      ''%d-%m-%y'',
      ''%d-%m-%Y'',
      ''%d.%m.%Y'',
      ''%d.%m.%y'',
      ''%d/%m/%Y'',
      ''%d/%m/%y'',
      ''%d-%b-%Y'',
      ''%d-%b-%y'',
      ''%d %B %Y'',
      ''%b %d, %Y'',
      ''%b %d, %y'',
      ''%b-%y'',
      ''%m/%d/%Y'']"

fun try_patterns :: "string list \<Rightarrow> string \<Rightarrow> string option" where
  \<comment> \<open>the \<^verbatim>\<open>for\<close> loop of \<^verbatim>\<open>normalise_date\<close>: the first pattern that parses returns\<close>
  "try_patterns [] value = None"
| "try_patterns (pattern # patterns) value =
     (case strptime value pattern of
        Some date \<Rightarrow> Some (strftime date)
      | None \<Rightarrow> try_patterns patterns value)"

definition normalise_date :: "string \<Rightarrow> string \<Rightarrow> state \<Rightarrow> string result" where
  \<comment> \<open>the parameter is called \<^verbatim>\<open>context\<close>; the \<^verbatim>\<open>field\<close> that the failure path logs is
      the module-level name, and reading it while it is unbound is a \<^verbatim>\<open>NameError\<close>\<close>
  "normalise_date context fieldvalue st =
     (let value = strip ('' '' @ [CHR 0x22] @ '','') fieldvalue
      in case try_patterns date_patterns value of
           Some s \<Rightarrow> Return s st
         | None \<Rightarrow>
             (case field_global st of
                None \<Rightarrow> Raise (NameError ''field'') st
              | Some field \<Rightarrow> Return [] (log_issue field ''date'' fieldvalue st)))"

definition normalise_uri :: "env \<Rightarrow> string \<Rightarrow> string \<Rightarrow> state \<Rightarrow> string result" where
  "normalise_uri ev field value st =
     (let uri = concat (split value)
      in if url ev uri then Return uri st else Return [] (log_issue field ''uri'' value st))"

definition normalise_address :: "string \<Rightarrow> string \<Rightarrow> string" where
  \<comment> \<open>the last replacement of the script removes the right double quotation mark, a
      character beyond the code points of the model\<close>
  "normalise_address field value =
     (let value = join '', '' (split_on newline value);
          value = replace '';'' '','' value;
          value = separator_sub CHR '','' '', '' value;
          value = strip '', '' value;
          value = separator_sub CHR ''-'' ''-'' value;
          value = replace [CHR 0x22] [] (join '' '' (split value))
      in value)"

definition normalise_enum_value :: "string \<Rightarrow> string" where
  "normalise_enum_value value = join '' '' (split (enum_strip_sub False (lower value)))"

definition normalise_enum :: "string \<Rightarrow> string \<Rightarrow> state \<Rightarrow> string result" where
  "normalise_enum field fieldvalue st =
     (let value = normalise_enum_value fieldvalue
      in case map_of (field_value st) field of
           None \<Rightarrow> Return [] (log_issue field ''enum'' fieldvalue st)
         | Some index \<Rightarrow>
             (case map_of index value of
                Some enum \<Rightarrow> Return enum st
              | None \<Rightarrow> Return [] (log_issue field ''enum'' fieldvalue st)))"

definition normalise :: "env \<Rightarrow> schema \<Rightarrow> string \<Rightarrow> string \<Rightarrow> state \<Rightarrow> string result" where
  "normalise ev sch fieldname value st =
     (if value = [] then Return [] st
      else (case fields sch fieldname of
        None \<Rightarrow> Raise (KeyError fieldname) st
      | Some field \<Rightarrow>
          (let value = fold (\<lambda>strip v. strip v) (dl_strip field) value
           in if fieldname = ''OrganisationURI''
              then normalise_organisation_uri fieldname value st
              else if ftype field = Some ''integer''
              then normalise_integer fieldname value st
              else if ftype field = Some ''number''
              then normalise_decimal fieldname value
                     (case dl_precision field of None \<Rightarrow> 6 | Some p \<Rightarrow> p) st
              else if ftype field = Some ''date''
              then normalise_date fieldname value st
              else if fformat field = Some ''uri''
              then normalise_uri ev fieldname value st
              else if dl_format field = Some ''address''
              then Return (normalise_address fieldname value) st
              else if constraints_enum field \<noteq> None
              then normalise_enum fieldname value st
              else Return value st)))"

section \<open>Loading the reference data\<close>

text \<open>
  A row of a reference or input table is the dictionary that \<^verbatim>\<open>csv.DictReader\<close> yields:
  the columns of the header with the row's values.
\<close>

fun load_organisation_rows ::
  "string dict list \<Rightarrow> string dict dict \<Rightarrow> state \<Rightarrow> string dict dict result" where
  \<comment> \<open>the first loop of \<^verbatim>\<open>load_organisations\<close>; \<open>organisation\<close> is its local dictionary\<close>
  "load_organisation_rows [] organisation st = Return organisation st"
| "load_organisation_rows (row # rows) organisation st =
     (case getitem row ''organisation'' of
        Inl e \<Rightarrow> Raise e st
      | Inr org \<Rightarrow>
          (case map_of row ''opendatacommunities'' of
             None \<Rightarrow> load_organisation_rows rows (setitem organisation org row) st
           | Some odc \<Rightarrow>
               (let uri = lower odc;
                    index = setitem (organisation_uri st) (lower org) uri;
                    index = setitem index uri uri;
                    index = setitem index (end_of_uri uri) uri
                in case getitem row ''statistical-geography'' of
                     Inl e \<Rightarrow> Raise e (st\<lparr>organisation_uri := index\<rparr>)
                   | Inr geography \<Rightarrow>
                       (let index = setitem index (lower geography) uri;
                            dl_url = ''https://digital-land.github.io/organisation/'' @ org @ ''/'';
                            dl_url = replace ''-eng:'' ''-eng/'' (lower dl_url);
                            index = (if contains ''local-authority-eng'' org
                                     then setitem index dl_url uri else index)
                        in load_organisation_rows rows (setitem organisation org row)
                             (st\<lparr>organisation_uri := index\<rparr>)))))"

fun load_organisation_patch ::
  "string dict list \<Rightarrow> string dict dict \<Rightarrow> state \<Rightarrow> unit result" where
  \<comment> \<open>the second loop of \<^verbatim>\<open>load_organisations\<close>\<close>
  "load_organisation_patch [] organisation st = Return () st"
| "load_organisation_patch (row # rows) organisation st =
     (case getitem row ''value'' of
        Inl e \<Rightarrow> Raise e st
      | Inr v \<Rightarrow>
          (case getitem row ''organisation'' of
             Inl e \<Rightarrow> Raise e st
           | Inr org \<Rightarrow>
               if org = [] then load_organisation_patch rows organisation st
               else (case getitem organisation org of
                       Inl e \<Rightarrow> Raise e st
                     | Inr entry \<Rightarrow>
                         (case getitem entry ''opendatacommunities'' of
                            Inl e \<Rightarrow> Raise e st
                          | Inr odc \<Rightarrow>
                              load_organisation_patch rows organisation
                                (st\<lparr>organisation_uri :=
                                      setitem (organisation_uri st) (lower_uri v) odc\<rparr>)))))"

definition load_organisations :: "string dict list \<Rightarrow> string dict list \<Rightarrow> state \<Rightarrow> unit result"
  where
  "load_organisations cache patch st =
     (case load_organisation_rows cache [] st of
        Raise e st' \<Rightarrow> Raise e st'
      | Return organisation st' \<Rightarrow> load_organisation_patch patch organisation st')"

fun load_enums :: "string \<Rightarrow> string list \<Rightarrow> state \<Rightarrow> state" where
  \<comment> \<open>\<^verbatim>\<open>for enum in field["constraints"]["enum"]\<close>\<close>
  "load_enums fieldname [] st = st"
| "load_enums fieldname (enum # enums) st =
     load_enums fieldname enums
       (st\<lparr>field_enum :=
             setitem (field_enum st) fieldname
               (setitem (get (field_enum st) fieldname []) enum enum),
           field_value :=
             setitem (field_value st) fieldname
               (setitem (get (field_value st) fieldname []) (normalise_enum_value enum) enum)\<rparr>)"

fun load_schema_enums :: "field_spec list \<Rightarrow> state \<Rightarrow> state" where
  \<comment> \<open>the first loop of \<^verbatim>\<open>load_field_value\<close>\<close>
  "load_schema_enums [] st = st"
| "load_schema_enums (field # rest) st =
     (case constraints_enum field of
        None \<Rightarrow> load_schema_enums rest st
      | Some enums \<Rightarrow>
          load_schema_enums rest
            (load_enums (name field) enums
               (st\<lparr>field_enum := setdefault (field_enum st) (name field) [],
                   field_value := setdefault (field_value st) (name field) []\<rparr>)))"

definition quote :: string where
  "quote = [CHR 0x27]"

definition invalid_enum :: "string \<Rightarrow> string \<Rightarrow> py_error" where
  \<comment> \<open>\<^verbatim>\<open>ValueError("invalid '%s' enum '%s' in patch/enum.csv" % (fieldname, enum))\<close>\<close>
  "invalid_enum fieldname enum =
     ValueError (''invalid '' @ quote @ fieldname @ quote @ '' enum '' @ quote @ enum @ quote
                 @ '' in patch/enum.csv'')"

fun load_enum_patch :: "string dict list \<Rightarrow> state \<Rightarrow> unit result" where
  \<comment> \<open>the second loop of \<^verbatim>\<open>load_field_value\<close>; \<^verbatim>\<open>field_enum[fieldname]\<close> is looked up
      before the test, so a field without declared enums is a \<^verbatim>\<open>KeyError\<close>\<close>
  "load_enum_patch [] st = Return () st"
| "load_enum_patch (row # rows) st =
     (case getitem row ''field'' of
        Inl e \<Rightarrow> Raise e st
      | Inr fieldname \<Rightarrow>
          (case getitem row ''enum'' of
             Inl e \<Rightarrow> Raise e st
           | Inr enum \<Rightarrow>
               (case getitem row ''value'' of
                  Inl e \<Rightarrow> Raise e st
                | Inr v \<Rightarrow>
                    (case getitem (field_enum st) fieldname of
                       Inl e \<Rightarrow> Raise e st
                     | Inr declared \<Rightarrow>
                         if map_of declared enum = None
                         then Raise (invalid_enum fieldname enum) st
                         else (let index = setdefault (field_value st) fieldname []
                               in load_enum_patch rows
                                    (st\<lparr>field_value :=
                                          setitem index fieldname
                                            (setitem (get index fieldname [])
                                               (normalise_enum_value v) enum)\<rparr>))))))"

definition load_field_value :: "schema \<Rightarrow> string dict list \<Rightarrow> state \<Rightarrow> unit result" where
  "load_field_value sch patch st = load_enum_patch patch (load_schema_enums (schema_fields sch) st)"

section \<open>Defaults carried from row to row\<close>

fun default_fill :: "string list \<Rightarrow> string dict \<Rightarrow> state \<Rightarrow> string dict result" where
  \<comment> \<open>\<^verbatim>\<open>for field in default_values\<close>: an empty value takes the stored one\<close>
  "default_fill [] out st = Return out st"
| "default_fill (field # rest) out st =
     (case getitem out field of
        Inl e \<Rightarrow> Raise e st
      | Inr v \<Rightarrow>
          if v = []
          then (case getitem (default_values st) field of
                  Inl e \<Rightarrow> Raise e st
                | Inr stored \<Rightarrow> default_fill rest (setitem out field stored) st)
          else default_fill rest out st)"

fun default_commit :: "string list \<Rightarrow> string dict \<Rightarrow> state \<Rightarrow> string dict result" where
  \<comment> \<open>\<^verbatim>\<open>for field in schema["digital-land"]["duplicate"]\<close>: the row's value is stored\<close>
  "default_commit [] out st = Return out st"
| "default_commit (field # rest) out st =
     (case getitem out field of
        Inl e \<Rightarrow> Raise e st
      | Inr v \<Rightarrow>
          default_commit rest out (st\<lparr>default_values := setitem (default_values st) field v\<rparr>))"

definition default_row :: "schema \<Rightarrow> string dict \<Rightarrow> state \<Rightarrow> string dict result" where
  "default_row sch out st =
     (case default_fill (map fst (default_values st)) out st of
        Raise e st' \<Rightarrow> Raise e st'
      | Return out' st' \<Rightarrow> default_commit (duplicate sch) out' st')"

section \<open>The main loop\<close>

fun normalise_fields ::
  "env \<Rightarrow> schema \<Rightarrow> string list \<Rightarrow> string dict \<Rightarrow> string dict \<Rightarrow> state \<Rightarrow> string dict result"
  where
  \<comment> \<open>\<^verbatim>\<open>for field in fieldnames: o[field] = normalise(field, row[field])\<close>; the loop
      variable is the module-level name \<^verbatim>\<open>field\<close>\<close>
  "normalise_fields ev sch [] row out st = Return out st"
| "normalise_fields ev sch (field # rest) row out st =
     (case getitem row field of
        Inl e \<Rightarrow> Raise e (st\<lparr>field_global := Some field\<rparr>)
      | Inr v \<Rightarrow>
          (case normalise ev sch field v (st\<lparr>field_global := Some field\<rparr>) of
             Raise e st' \<Rightarrow> Raise e st'
           | Return s st' \<Rightarrow> normalise_fields ev sch rest row (setitem out field s) st'))"

definition process_row :: "env \<Rightarrow> schema \<Rightarrow> string dict \<Rightarrow> state \<Rightarrow> unit result" where
  \<comment> \<open>the body of \<^verbatim>\<open>for row in reader\<close>; the row written holds the values of the
      schema's fields in the schema's order\<close>
  "process_row ev sch row st =
     (case normalise_fields ev sch (fieldnames sch) row []
             (st\<lparr>row_number := row_number st + 1\<rparr>) of
        Raise e st' \<Rightarrow> Raise e st'
      | Return out st' \<Rightarrow>
          (case normalise_geometry ev out st' of
             Raise e st' \<Rightarrow> Raise e st'
           | Return out st' \<Rightarrow>
               (case default_row sch out st' of
                  Raise e st' \<Rightarrow> Raise e st'
                | Return out st' \<Rightarrow>
                    Return ()
                      (st'\<lparr>output_rows :=
                            output_rows st' @ [map (\<lambda>f. get out f []) (fieldnames sch)]\<rparr>))))"

fun process_rows :: "env \<Rightarrow> schema \<Rightarrow> string dict list \<Rightarrow> state \<Rightarrow> unit result" where
  "process_rows ev sch [] st = Return () st"
| "process_rows ev sch (row # rows) st =
     (case process_row ev sch row st of
        Raise e st' \<Rightarrow> Raise e st'
      | Return u st' \<Rightarrow> process_rows ev sch rows st')"

definition main ::
  "env \<Rightarrow> schema \<Rightarrow> string dict list \<Rightarrow> string dict list \<Rightarrow> string dict list
     \<Rightarrow> string dict list \<Rightarrow> unit result" where
  \<comment> \<open>the script run on the rows of the input, of the organisation table, of the
      organisation patch and of the enum patch\<close>
  "main ev sch reader organisations organisation_patch enum_patch =
     (case load_organisations organisations organisation_patch initial_state of
        Raise e st \<Rightarrow> Raise e st
      | Return u st \<Rightarrow>
          (case load_field_value sch enum_patch st of
             Raise e st \<Rightarrow> Raise e st
           | Return u st \<Rightarrow> process_rows ev sch reader st))"

section \<open>What the specification says, and example data\<close>

text \<open>
  The enum resolver's key in other words: the words of the lower-cased value, a word
  being a maximal run of characters of \<^verbatim>\<open>[a-z0-9-_]\<close>, joined by single spaces.
\<close>

definition enum_word_char :: "char \<Rightarrow> bool" where
  \<comment> \<open>the characters of \<^verbatim>\<open>[a-z0-9-_]\<close>\<close>
  "enum_word_char c =
     ((97 \<le> py_ord c \<and> py_ord c \<le> 122) \<or> isdigit c \<or> c = CHR ''-'' \<or> c = CHR ''_'')"

fun enum_words_aux :: "string \<Rightarrow> string \<Rightarrow> string list" where
  "enum_words_aux cur [] = (if cur = [] then [] else [cur])"
| "enum_words_aux cur (c # cs) =
     (if enum_word_char c then enum_words_aux (cur @ [c]) cs
      else if cur = [] then enum_words_aux [] cs else cur # enum_words_aux [] cs)"

definition enum_words :: "string \<Rightarrow> string list" where
  \<comment> \<open>every character outside \<^verbatim>\<open>[a-z0-9-_]\<close>, the space too, separates two words\<close>
  "enum_words s = enum_words_aux [] s"

text \<open>
  The dispatch of \<open>normalise\<close> as a priority order: the normalisers with the conditions
  that select them, the first condition that holds deciding.
\<close>

datatype normaliser =
  OrganisationUri | Integer | Decimal | Date | Uri | Address | Enum | Verbatim

definition priority :: "string \<Rightarrow> field_spec \<Rightarrow> (bool \<times> normaliser) list" where
  "priority fieldname field =
     [(fieldname = ''OrganisationURI'', OrganisationUri),
      (ftype field = Some ''integer'', Integer),
      (ftype field = Some ''number'', Decimal),
      (ftype field = Some ''date'', Date),
      (fformat field = Some ''uri'', Uri),
      (dl_format field = Some ''address'', Address),
      (constraints_enum field \<noteq> None, Enum)]"

definition select_normaliser :: "string \<Rightarrow> field_spec \<Rightarrow> normaliser" where
  \<comment> \<open>the first normaliser of the priority order whose condition holds, and the value
      as it is when none does\<close>
  "select_normaliser fieldname field =
     (case List.find fst (priority fieldname field) of
        Some (c, k) \<Rightarrow> k
      | None \<Rightarrow> Verbatim)"

definition run_normaliser ::
  "normaliser \<Rightarrow> env \<Rightarrow> string \<Rightarrow> field_spec \<Rightarrow> string \<Rightarrow> state \<Rightarrow> string result" where
  "run_normaliser k ev fieldname field value st =
     (case k of
        OrganisationUri \<Rightarrow> normalise_organisation_uri fieldname value st
      | Integer \<Rightarrow> normalise_integer fieldname value st
      | Decimal \<Rightarrow>
          normalise_decimal fieldname value
            (case dl_precision field of None \<Rightarrow> 6 | Some p \<Rightarrow> p) st
      | Date \<Rightarrow> normalise_date fieldname value st
      | Uri \<Rightarrow> normalise_uri ev fieldname value st
      | Address \<Rightarrow> Return (normalise_address fieldname value) st
      | Enum \<Rightarrow> normalise_enum fieldname value st
      | Verbatim \<Rightarrow> Return value st)"

definition apply_strips :: "field_spec \<Rightarrow> string \<Rightarrow> string" where
  \<comment> \<open>the field's strip patterns applied in the order the schema lists them\<close>
  "apply_strips field value = foldl (\<lambda>v strip. strip v) value (dl_strip field)"

definition date_strip :: "string \<Rightarrow> string" where
  \<comment> \<open>\<^verbatim>\<open>fieldvalue.strip(' ",')\<close>\<close>
  "date_strip fieldvalue = strip ('' '' @ [CHR 0x22] @ '','') fieldvalue"

definition aborted_before_rows :: "unit result \<Rightarrow> py_error \<Rightarrow> bool" where
  \<comment> \<open>the run raised the error with no row read and nothing written to the output or
      to the log\<close>
  "aborted_before_rows r e =
     (case r of
        Raise e' st \<Rightarrow> e' = e \<and> output_rows st = [] \<and> log_rows st = [] \<and> row_number st = 0
      | Return u st \<Rightarrow> False)"

text \<open>
  What the schema declares for a field name, what \<open>field_enum\<close> holds for it, and the
  parts of the state that the loading leaves alone.
\<close>

definition result_state :: "'a result \<Rightarrow> state" where
  \<comment> \<open>the state a call ends in, returning or raising\<close>
  "result_state r = (case r of Return x st \<Rightarrow> st | Raise e st \<Rightarrow> st)"

definition same_files :: "state \<Rightarrow> state \<Rightarrow> bool" where
  \<comment> \<open>nothing was written to the output or to the log, and no row was counted\<close>
  "same_files st st' =
     (output_rows st' = output_rows st \<and> log_rows st' = log_rows st
      \<and> row_number st' = row_number st)"

definition get_enums :: "field_spec \<Rightarrow> string list" where
  "get_enums fld = (case constraints_enum fld of None \<Rightarrow> [] | Some es \<Rightarrow> es)"

definition constrained :: "field_spec list \<Rightarrow> string \<Rightarrow> bool" where
  \<comment> \<open>a field of that name declares \<^verbatim>\<open>constraints.enum\<close>\<close>
  "constrained fs f = list_ex (\<lambda>fld. name fld = f \<and> constraints_enum fld \<noteq> None) fs"

definition declared_enums :: "field_spec list \<Rightarrow> string \<Rightarrow> string set" where
  \<comment> \<open>the enums the schema declares for a field name\<close>
  "declared_enums fs f = set (concat (map get_enums (filter (\<lambda>fld. name fld = f) fs)))"

definition enum_keys :: "state \<Rightarrow> string \<Rightarrow> string set" where
  \<comment> \<open>the enums that \<open>field_enum\<close> holds for a field\<close>
  "enum_keys st f = (case map_of (field_enum st) f of None \<Rightarrow> {} | Some d \<Rightarrow> dom (map_of d))"

definition declares :: "string dict \<Rightarrow> state \<Rightarrow> bool" where
  \<comment> \<open>a complete patch row whose enum \<open>field_enum\<close> holds for its field\<close>
  "declares row st =
     (case (map_of row ''field'', map_of row ''enum'', map_of row ''value'') of
        (Some f, Some e, Some v) \<Rightarrow>
          (case map_of (field_enum st) f of None \<Rightarrow> False | Some d \<Rightarrow> map_of d e \<noteq> None)
      | _ \<Rightarrow> False)"

definition example_env :: env where
  \<comment> \<open>every URL that starts with \<^verbatim>\<open>http\<close> is valid, and every point is reprojected to
      latitude 49.75, longitude -7.5625: near where the national grid has its origin,
      west of the box\<close>
  "example_env =
     \<lparr>url = (\<lambda>u. startswith u ''http''),
      transform = (\<lambda>x y. Inr (FloatFinite False 199 2, FloatFinite True 121 4))\<rparr>"

definition plain_field :: "string \<Rightarrow> field_spec" where
  \<comment> \<open>a field that declares its name only\<close>
  "plain_field n =
     \<lparr>name = n, ftype = None, fformat = None, constraints_enum = None, dl_strip = [],
      dl_precision = None, dl_format = None\<rparr>"

definition example_schema :: schema where
  "example_schema =
     \<lparr>schema_fields =
        [plain_field ''SiteReference'',
         (plain_field ''SiteplanURL'')
           \<lparr>fformat := Some ''uri'', constraints_enum := Some [''http://example.com/'']\<rparr>,
         (plain_field ''GeoX'')\<lparr>ftype := Some ''number''\<rparr>,
         (plain_field ''GeoY'')\<lparr>ftype := Some ''number''\<rparr>,
         (plain_field ''Hectares'')\<lparr>ftype := Some ''number'', dl_precision := Some 2\<rparr>,
         (plain_field ''OwnershipStatus'')
           \<lparr>constraints_enum := Some [''owned by a public authority'']\<rparr>,
         (plain_field ''FirstAddedDate'')\<lparr>ftype := Some ''date''\<rparr>],
      duplicate = [''SiteReference'']\<rparr>"

definition example_row :: "string \<Rightarrow> string \<Rightarrow> string \<Rightarrow> string dict" where
  \<comment> \<open>a row of the example schema with the given coordinates and area\<close>
  "example_row geox geoy hectares =
     [(''SiteReference'', ''S1''), (''SiteplanURL'', []), (''GeoX'', geox), (''GeoY'', geoy),
      (''Hectares'', hectares), (''OwnershipStatus'', []), (''FirstAddedDate'', [])]"

definition patch_row :: "string \<Rightarrow> string \<Rightarrow> string \<Rightarrow> string dict" where
  \<comment> \<open>a row of \<^verbatim>\<open>patch/enum.csv\<close>\<close>
  "patch_row f e v = [(''field'', f), (''enum'', e), (''value'', v)]"

definition carry_schema :: schema where
  \<comment> \<open>one field, listed as a duplicate\<close>
  "carry_schema = \<lparr>schema_fields = [plain_field ''F''], duplicate = [''F'']\<rparr>"

definition carry_rows :: "string dict list" where
  \<comment> \<open>five rows of the field \<open>F\<close>: X, blank, blank, Y, blank\<close>
  "carry_rows = [[(''F'', ''X'')], [(''F'', [])], [(''F'', [])], [(''F'', ''Y'')], [(''F'', [])]]"

section \<open>Facts about the model\<close>

lemma py_ord_simps [simp]:
  "py_ord CHR '' '' = 32" "py_ord CHR ''-'' = 45" "py_ord CHR ''_'' = 95"
  by (simp_all add: py_ord_def)

lemma isspace_space [simp]: "isspace CHR '' ''"
  by (simp add: isspace_def)

lemma getitem_Some: "map_of d k = Some v \<Longrightarrow> getitem d k = Inr v"
  by (simp add: getitem_def)

lemma map_of_setitem: "map_of (setitem d k v) = (map_of d)(k \<mapsto> v)"
  by (simp add: setitem_def update_conv')

lemma normalise_empty: "normalise ev sch fieldname [] st = Return [] st"
  by (simp add: normalise_def)

lemma hectares_field:
  "fields example_schema ''Hectares''
     = Some ((plain_field ''Hectares'')\<lparr>ftype := Some ''number'', dl_precision := Some 2\<rparr>)"
  by (simp add: fields_def example_schema_def plain_field_def)

lemma date_field:
  "fields example_schema ''FirstAddedDate''
     = Some ((plain_field ''FirstAddedDate'')\<lparr>ftype := Some ''date''\<rparr>)"
  by (simp add: fields_def example_schema_def plain_field_def)

lemma siteplan_field:
  "fields example_schema ''SiteplanURL''
     = Some ((plain_field ''SiteplanURL'')
           \<lparr>fformat := Some ''uri'', constraints_enum := Some [''http://example.com/'']\<rparr>)"
  by (simp add: fields_def example_schema_def plain_field_def)

lemma normalise_hectares:
  "value \<noteq> [] \<Longrightarrow>
   normalise ev example_schema ''Hectares'' value st = normalise_decimal ''Hectares'' value 2 st"
  by (simp add: normalise_def hectares_field plain_field_def)

lemma normalise_first_added:
  "value \<noteq> [] \<Longrightarrow>
   normalise ev example_schema ''FirstAddedDate'' value st
     = normalise_date ''FirstAddedDate'' value st"
  by (simp add: normalise_def date_field plain_field_def)

subsection \<open>Totality of \<open>normalise\<close>\<close>

lemma normalise_returns_unless_number_or_date:
  assumes "fields sch fieldname = Some field"
    and "fieldname = ''OrganisationURI'' \<or> ftype field \<noteq> Some ''number''"
    and "fieldname = ''OrganisationURI'' \<or> ftype field = Some ''integer''
         \<or> ftype field \<noteq> Some ''date'' \<or> field_global st \<noteq> None"
  shows "\<exists>s st'. normalise ev sch fieldname value st = Return s st'"
  using assms
  by (auto simp: normalise_def normalise_organisation_uri_def normalise_integer_def
        normalise_date_def normalise_uri_def normalise_enum_def Let_def
        split: option.splits)

lemma decimal_infinity: "Decimal_str ''Infinity'' = Some (Infinity False)"
  by code_simp

lemma format_infinity: "format_decimal (Dec (Infinity False)) 6 = None"
  by code_simp

lemma decimal_1e30: "Decimal_str ''1e30'' = Some (Finite False 1 30)"
  by code_simp

lemma format_1e30: "format_decimal (Dec (Finite False 1 30)) 6 = None"
  by code_simp

lemma try_last_spring: "try_patterns date_patterns (date_strip ''last spring'') = None"
  by code_simp

text \<open>
  C1. The claim is that \<open>normalise\<close> returns a string and never raises, whatever the
  field and the value. The script does raise: on a number field the value
  \<^verbatim>\<open>Infinity\<close> parses inside the \<^verbatim>\<open>try\<close> of \<^verbatim>\<open>normalise_decimal\<close>, and the rounding of
  \<^verbatim>\<open>format_decimal\<close>, which is outside it, raises \<^verbatim>\<open>InvalidOperation\<close>; so does a number
  that needs more than 28 digits at six decimal places, such as \<^verbatim>\<open>1e30\<close>. The failure
  path of the date normaliser reads the module-level name \<^verbatim>\<open>field\<close>, and raises
  \<^verbatim>\<open>NameError\<close> when \<open>normalise\<close> is called while that name is unbound. An empty value
  does give the empty string and no log entry, and on a field of the schema that is
  neither a number nor a date \<open>normalise\<close> always returns
  (\<open>normalise_returns_unless_number_or_date\<close>).
\<close>

theorem normalise_raises_on_infinity:
  "normalise ev example_schema ''Hectares'' ''Infinity'' st = Raise InvalidOperation st
   \<and> normalise ev example_schema ''Hectares'' ''1e30'' st = Raise InvalidOperation st
   \<and> normalise ev example_schema ''FirstAddedDate'' ''last spring'' (st\<lparr>field_global := None\<rparr>)
       = Raise (NameError ''field'') (st\<lparr>field_global := None\<rparr>)
   \<and> normalise ev example_schema ''Hectares'' [] st = Return [] st"
proof -
  have "normalise_decimal ''Hectares'' ''Infinity'' 2 st = Raise InvalidOperation st"
    unfolding normalise_decimal_def
    by (simp only: decimal_infinity format_infinity option.case)
  then have a: "normalise ev example_schema ''Hectares'' ''Infinity'' st
                  = Raise InvalidOperation st"
    by (simp add: normalise_hectares)
  have "normalise_decimal ''Hectares'' ''1e30'' 2 st = Raise InvalidOperation st"
    unfolding normalise_decimal_def
    by (simp only: decimal_1e30 format_1e30 option.case)
  then have b: "normalise ev example_schema ''Hectares'' ''1e30'' st = Raise InvalidOperation st"
    by (simp add: normalise_hectares)
  have c: "normalise ev example_schema ''FirstAddedDate'' ''last spring''
             (st\<lparr>field_global := None\<rparr>)
           = Raise (NameError ''field'') (st\<lparr>field_global := None\<rparr>)"
    using try_last_spring
    by (simp add: normalise_first_added normalise_date_def date_strip_def)
  show ?thesis
    using a b c normalise_empty by (intro conjI)
qed

subsection \<open>Decimal precision\<close>

lemma normalise_decimal_any_precision:
  "normalise_decimal field value precision st = normalise_decimal field value 6 st"
  by (simp add: normalise_decimal_def)

lemma decimal_123456: "Decimal_str ''1.23456'' = Some (Finite False 123456 (- 5))"
  by code_simp

lemma format_123456: "format_decimal (Dec (Finite False 123456 (- 5))) 6 = Some ''1.23456''"
  by code_simp

lemma decimal_51_5: "normalise_decimal field ''51.500000'' 6 st = Return ''51.5'' st"
proof -
  have "Decimal_str ''51.500000'' = Some (Finite False 51500000 (- 6))"
    by code_simp
  moreover have "format_decimal (Dec (Finite False 51500000 (- 6))) 6 = Some ''51.5''"
    by code_simp
  ultimately show ?thesis
    unfolding normalise_decimal_def by (simp only: option.case)
qed

lemma decimal_51_123: "normalise_decimal field ''51.123456789'' 6 st = Return ''51.123457'' st"
proof -
  have "Decimal_str ''51.123456789'' = Some (Finite False 51123456789 (- 9))"
    by code_simp
  moreover have "format_decimal (Dec (Finite False 51123456789 (- 9))) 6 = Some ''51.123457''"
    by code_simp
  ultimately show ?thesis
    unfolding normalise_decimal_def by (simp only: option.case)
qed

text \<open>
  C2. The claim is that a number is rounded half to even to the precision the field
  configures, six places when it configures none. The script reads the configured
  precision and hands it to \<^verbatim>\<open>normalise_decimal\<close>, which does not pass it on: every
  number is rounded to six places. The field \<^verbatim>\<open>Hectares\<close> of the example schema
  configures two places, and \<^verbatim>\<open>1.23456\<close> comes back as it is, whatever the precision.
  At six places the two examples of the claim hold.
\<close>

theorem decimal_ignores_configured_precision:
  "normalise_decimal field value precision st = normalise_decimal field value 6 st
   \<and> fields example_schema ''Hectares''
     = Some ((plain_field ''Hectares'')\<lparr>ftype := Some ''number'', dl_precision := Some 2\<rparr>)
   \<and> normalise ev example_schema ''Hectares'' ''1.23456'' st = Return ''1.23456'' st
   \<and> normalise_decimal field ''1.23456'' precision st = Return ''1.23456'' st
   \<and> normalise_decimal field ''51.500000'' 6 st = Return ''51.5'' st
   \<and> normalise_decimal field ''51.123456789'' 6 st = Return ''51.123457'' st"
proof -
  have a: "normalise_decimal field ''1.23456'' precision st = Return ''1.23456'' st"
    for field precision
    unfolding normalise_decimal_def
    by (simp only: decimal_123456 format_123456 option.case)
  have b: "normalise ev example_schema ''Hectares'' ''1.23456'' st = Return ''1.23456'' st"
    by (simp add: normalise_hectares a)
  show ?thesis
    using normalise_decimal_any_precision [of field "value" precision st]
      hectares_field b a decimal_51_5 decimal_51_123
    by (intro conjI)
qed

subsection \<open>Geometry\<close>

lemma geometry_log_blanked:
  "geometry_log (setitem (setitem row ''GeoX'' []) ''GeoY'' []) st
     = Return (setitem (setitem row ''GeoX'' []) ''GeoY'' [])
         (log_issue ''GeoX,GeoY'' ''OSGB'' '','' st)"
  by (simp add: geometry_log_def getitem_def map_of_setitem)

lemma geometry_all_fail:
  assumes "get row ''GeoX'' [] \<noteq> []" and "get row ''GeoY'' [] \<noteq> []"
    and "Decimal_str (get row ''GeoX'' []) = Some geox"
    and "Decimal_str (get row ''GeoY'' []) = Some geoy"
    and "within_england (Dec geox) (Dec geoy) = Inr False"
    and "within_england (Dec geoy) (Dec geox) = Inr False"
    and "transform ev geox geoy = Inr (lat1, lon1)"
    and "within_england (Flt lon1) (Flt lat1) = Inr False"
    and "transform ev geoy geox = Inr (lat2, lon2)"
    and "within_england (Flt lon2) (Flt lat2) = Inr False"
  shows "normalise_geometry ev row st
           = Return (setitem (setitem row ''GeoX'' []) ''GeoY'' [])
               (log_issue ''GeoX,GeoY'' ''OSGB'' '','' st)"
  using assms
  by (simp add: normalise_geometry_def geometry_resolve_def geometry_reproject_def
        geometry_log_blanked)

lemma decimal_zero: "Decimal_str ''0'' = Some (Finite False 0 0)"
  by code_simp

lemma origin_outside:
  "within_england (Dec (Finite False 0 0)) (Dec (Finite False 0 0)) = Inr False"
  by code_simp

lemma reprojected_outside:
  "within_england (Flt (FloatFinite True 121 4)) (Flt (FloatFinite False 199 2)) = Inr False"
  by code_simp

text \<open>
  C3. The claim is that a pair which is outside the box as given, swapped, reprojected,
  and swapped and reprojected, is logged once under \<^verbatim>\<open>GeoX,GeoY\<close> with the datatype
  \<^verbatim>\<open>OSGB\<close> and the original pair as the value, and that both fields come out empty. The
  script blanks both fields of the row before it tests anything and builds the logged
  value from the row afterwards: for the pair 0, 0 the one entry it appends has the
  value \<^verbatim>\<open>,\<close> and not \<^verbatim>\<open>0,0\<close>. The field key, the datatype and the two empty fields are
  as the claim says, and \<open>geometry_all_fail\<close> says the same of every such pair.
\<close>

theorem geometry_failure_logs_comma:
  "normalise_geometry example_env [(''GeoX'', ''0''), (''GeoY'', ''0'')] st
     = Return [(''GeoX'', []), (''GeoY'', [])] (log_issue ''GeoX,GeoY'' ''OSGB'' '','' st)
   \<and> '','' \<noteq> ''0,0''"
proof -
  have "normalise_geometry example_env [(''GeoX'', ''0''), (''GeoY'', ''0'')] st
          = Return (setitem (setitem [(''GeoX'', ''0''), (''GeoY'', ''0'')] ''GeoX'' []) ''GeoY'' [])
              (log_issue ''GeoX,GeoY'' ''OSGB'' '','' st)"
    by (rule geometry_all_fail [where geox = "Finite False 0 0" and geoy = "Finite False 0 0"
          and ?lat1.0 = "FloatFinite False 199 2" and ?lon1.0 = "FloatFinite True 121 4"
          and ?lat2.0 = "FloatFinite False 199 2" and ?lon2.0 = "FloatFinite True 121 4"])
       (simp_all add: get_def decimal_zero origin_outside reprojected_outside example_env_def)
  then show ?thesis by (simp add: setitem_def)
qed

text \<open>
  C4, as amended. When one of the two coordinates is blank (or the row has no such
  field), the geometry resolver returns the row as it is and logs nothing: the blank
  coordinate stays blank and the other one keeps its value.
\<close>

theorem geometry_blank_returns_row:
  "get row ''GeoX'' [] = [] \<or> get row ''GeoY'' [] = [] \<Longrightarrow>
   normalise_geometry ev row st = Return row st"
  by (simp add: normalise_geometry_def)

text \<open>
  The theorem of C4 at a row with a longitude and no latitude.
\<close>

theorem geometry_blank_returns_row_witness:
  "(get [(''GeoX'', ''1''), (''GeoY'', [])] ''GeoX'' [] = []
    \<or> get [(''GeoX'', ''1''), (''GeoY'', [])] ''GeoY'' [] = [])
   \<and> normalise_geometry example_env [(''GeoX'', ''1''), (''GeoY'', [])] initial_state
       = Return [(''GeoX'', ''1''), (''GeoY'', [])] initial_state"
  using geometry_blank_returns_row [of "[(''GeoX'', ''1''), (''GeoY'', [])]" example_env initial_state]
  by (simp add: get_def)

text \<open>
  C4 as it is stated says that both output fields are left blank. With \<^verbatim>\<open>GeoX\<close> 1 and a
  blank \<^verbatim>\<open>GeoY\<close> the row comes back unchanged, and its \<^verbatim>\<open>GeoX\<close> is not blank.
\<close>

theorem geometry_blank_keeps_other_field:
  "normalise_geometry example_env [(''GeoX'', ''1''), (''GeoY'', [])] initial_state
     = Return [(''GeoX'', ''1''), (''GeoY'', [])] initial_state
   \<and> get [(''GeoX'', ''1''), (''GeoY'', [])] ''GeoX'' [] \<noteq> []"
  by (simp add: normalise_geometry_def get_def)

subsection \<open>Enums\<close>

lemma enum_class_iff: "enum_class c \<longleftrightarrow> enum_word_char c \<or> c = CHR '' ''"
  by (auto simp: enum_class_def enum_word_char_def)

lemma enum_word_char_not_space: "enum_word_char c \<Longrightarrow> \<not> isspace c"
  by (auto simp: enum_word_char_def isspace_def isdigit_def)

lemma not_word_space [simp]: "\<not> enum_word_char CHR '' ''"
  by (simp add: enum_word_char_def isdigit_def)

lemma split_enum_strip:
  "split_ws cur (enum_strip_sub False s) = enum_words_aux cur s
   \<and> split_ws [] (enum_strip_sub True s) = enum_words_aux [] s"
proof (induction s arbitrary: cur)
  case Nil
  show ?case by simp
next
  case (Cons c cs)
  show ?case
  proof (cases "enum_word_char c")
    case True
    then have "enum_class c" "\<not> isspace c"
      by (simp_all add: enum_class_iff enum_word_char_not_space)
    with True Cons show ?thesis by simp
  next
    case False
    show ?thesis
    proof (cases "c = CHR '' ''")
      case True
      with Cons show ?thesis by (simp add: enum_class_iff)
    next
      case notsp: False
      with False have "\<not> enum_class c" by (simp add: enum_class_iff)
      with False Cons show ?thesis by simp
    qed
  qed
qed

lemma normalise_enum_value_words:
  "normalise_enum_value raw = join '' '' (enum_words (lower raw))"
  by (simp add: normalise_enum_value_def split_def enum_words_def split_enum_strip)

lemma enum_retail: "normalise_enum_value ''Retail/Leisure'' = ''retail leisure''"
  by code_simp

text \<open>
  C5, as amended. The key of a raw value is its lower-cased form with every run of
  characters outside \<^verbatim>\<open>[a-z0-9-_ ]\<close> replaced by a space, and whitespace then collapsed:
  the words of the value, joined by single spaces. The resolver returns the token the
  key maps to in the field's index, and on a miss logs an \<^verbatim>\<open>enum\<close> issue with the raw
  value and returns the empty string. The key of \<^verbatim>\<open>Retail/Leisure\<close> is
  \<^verbatim>\<open>retail leisure\<close>.
\<close>

theorem enum_key_replaces_by_space:
  "normalise_enum_value raw = join '' '' (enum_words (lower raw))
   \<and> normalise_enum field raw st =
       (case map_of (get (field_value st) field []) (normalise_enum_value raw) of
          Some token \<Rightarrow> Return token st
        | None \<Rightarrow> Return [] (log_issue field ''enum'' raw st))
   \<and> normalise_enum_value ''Retail/Leisure'' = ''retail leisure''"
proof -
  have "normalise_enum field raw st =
       (case map_of (get (field_value st) field []) (normalise_enum_value raw) of
          Some token \<Rightarrow> Return token st
        | None \<Rightarrow> Return [] (log_issue field ''enum'' raw st))"
    by (simp add: normalise_enum_def get_def split: option.splits)
  then show ?thesis
    using normalise_enum_value_words [of raw] enum_retail by (intro conjI)
qed

text \<open>
  C5 as it is stated says that the slash is removed, so that the key of
  \<^verbatim>\<open>Retail/Leisure\<close> is \<^verbatim>\<open>retailleisure\<close>. It is not.
\<close>

theorem enum_key_is_not_retailleisure:
  "normalise_enum_value ''Retail/Leisure'' \<noteq> ''retailleisure''"
  by code_simp

subsection \<open>Integers\<close>

lemma dropWhile_append_keeps:
  "\<not> P c \<Longrightarrow> length (dropWhile P (s @ c # t)) \<ge> Suc (length t)"
  by (induction s) auto

lemma takeWhile_zeros:
  "takeWhile (\<lambda>x. x = CHR ''0'') (replicate (Suc n) CHR ''0'' @ t)
     = replicate (Suc n) CHR ''0'' @ takeWhile (\<lambda>x. x = CHR ''0'') t"
  by (rule takeWhile_append2) auto

lemma dropWhile_zeros:
  "dropWhile (\<lambda>x. x = CHR ''0'') (replicate (Suc n) CHR ''0'' @ t)
     = dropWhile (\<lambda>x. x = CHR ''0'') t"
  by (rule dropWhile_append2) auto

lemma integer_regex_match_inner:
  "integer_regex_match (c # s @ ''.'' @ replicate (Suc n) CHR ''0'' @ t) = None"
proof (cases "c = CHR ''.''")
  case False
  then show ?thesis by (simp add: integer_regex_match_def)
next
  case True
  have "length (dropWhile (\<lambda>x. x = CHR ''0'') (s @ CHR ''.'' # replicate (Suc n) CHR ''0'' @ t))
        \<ge> Suc (length (replicate (Suc n) CHR ''0'' @ t))"
    by (rule dropWhile_append_keeps) simp
  then have len:
    "length (dropWhile (\<lambda>x. x = CHR ''0'') (s @ CHR ''.'' # replicate (Suc n) CHR ''0'' @ t))
       \<ge> 2"
    by simp
  have ne:
    "dropWhile (\<lambda>x. x = CHR ''0'') (s @ CHR ''.'' # replicate (Suc n) CHR ''0'' @ t) \<noteq> []"
    using len by auto
  have nn:
    "dropWhile (\<lambda>x. x = CHR ''0'') (s @ CHR ''.'' # replicate (Suc n) CHR ''0'' @ t)
       \<noteq> [newline]"
    using len by auto
  from True ne nn show ?thesis
    by (simp add: integer_regex_match_def Let_def del: replicate_Suc)
qed

lemma integer_regex_match_run:
  assumes "t = [] \<or> t = [newline]"
  shows "integer_regex_match (''.'' @ replicate (Suc n) CHR ''0'' @ t) = Some t"
proof -
  have nl: "newline \<noteq> CHR ''0''"
    by (simp add: newline_def)
  have tk: "takeWhile (\<lambda>x. x = CHR ''0'') t = []"
    using assms nl by auto
  have dr: "dropWhile (\<lambda>x. x = CHR ''0'') t = t"
    using assms nl by auto
  have "takeWhile (\<lambda>x. x = CHR ''0'') (replicate (Suc n) CHR ''0'' @ t)
          = replicate (Suc n) CHR ''0''"
    using takeWhile_zeros [of n t] tk by simp
  moreover have "dropWhile (\<lambda>x. x = CHR ''0'') (replicate (Suc n) CHR ''0'' @ t) = t"
    using dropWhile_zeros [of n t] dr by simp
  ultimately show ?thesis
    using assms by (auto simp add: integer_regex_match_def Let_def simp del: replicate_Suc)
qed

lemma integer_regex_sub_run:
  assumes "t = [] \<or> t = [newline]"
  shows "integer_regex_sub (s @ ''.'' @ replicate (Suc n) CHR ''0'' @ t) = s @ t"
proof (induction s)
  case Nil
  show ?case using integer_regex_match_run [OF assms, of n] by (simp del: replicate_Suc)
next
  case (Cons c s)
  show ?case using integer_regex_match_inner [of c s n t] Cons by (simp del: replicate_Suc)
qed

lemma integer_regex_match_nil: "integer_regex_match [] = None"
  by (simp add: integer_regex_match_def)

lemma integer_regex_match_other: "c \<noteq> CHR ''.'' \<Longrightarrow> integer_regex_match (c # cs) = None"
  by (simp add: integer_regex_match_def)

lemma integer_regex_match_point:
  "integer_regex_match (CHR ''.'' # cs) =
     (if takeWhile (\<lambda>x. x = CHR ''0'') cs = [] then None
      else if dropWhile (\<lambda>x. x = CHR ''0'') cs = [] \<or> dropWhile (\<lambda>x. x = CHR ''0'') cs = [newline]
      then Some (dropWhile (\<lambda>x. x = CHR ''0'') cs) else None)"
  by (simp add: integer_regex_match_def Let_def)

lemma takeWhile_is_zeros:
  assumes "takeWhile (\<lambda>x. x = CHR ''0'') cs \<noteq> []"
  shows "\<exists>n. takeWhile (\<lambda>x. x = CHR ''0'') cs = replicate (Suc n) CHR ''0''"
proof -
  have "\<forall>y \<in> set (takeWhile (\<lambda>x. x = CHR ''0'') cs). y = CHR ''0''"
    by (auto dest: set_takeWhileD)
  then have r: "replicate (length (takeWhile (\<lambda>x. x = CHR ''0'') cs)) CHR ''0''
                  = takeWhile (\<lambda>x. x = CHR ''0'') cs"
    by (rule replicate_length_same)
  from assms obtain n where "length (takeWhile (\<lambda>x. x = CHR ''0'') cs) = Suc n"
    by (cases "takeWhile (\<lambda>x. x = CHR ''0'') cs") auto
  with r have "takeWhile (\<lambda>x. x = CHR ''0'') cs = replicate (Suc n) CHR ''0''"
    by metis
  then show ?thesis ..
qed

lemma integer_regex_match_shape:
  assumes "integer_regex_match v = Some rest"
  shows "\<exists>n. v = ''.'' @ replicate (Suc n) CHR ''0'' @ rest \<and> (rest = [] \<or> rest = [newline])"
proof (cases v)
  case Nil
  with assms show ?thesis by (simp add: integer_regex_match_nil)
next
  case (Cons c cs)
  show ?thesis
  proof (cases "c = CHR ''.''")
    case False
    with assms Cons show ?thesis by (simp add: integer_regex_match_other)
  next
    case True
    let ?zs = "takeWhile (\<lambda>x. x = CHR ''0'') cs"
    let ?r = "dropWhile (\<lambda>x. x = CHR ''0'') cs"
    from assms Cons True have m: "integer_regex_match (CHR ''.'' # cs) = Some rest"
      by simp
    have zs: "?zs \<noteq> []"
    proof
      assume z: "?zs = []"
      from m have "None = Some rest"
        unfolding integer_regex_match_point by (simp only: z simp_thms if_True)
      then show False by simp
    qed
    have e: "?r = [] \<or> ?r = [newline]"
    proof (rule ccontr)
      assume n: "\<not> (?r = [] \<or> ?r = [newline])"
      from m have "None = Some rest"
        unfolding integer_regex_match_point by (simp only: zs n if_False)
      then show False by simp
    qed
    have r: "?r = rest"
      using m unfolding integer_regex_match_point
      by (simp only: zs e if_False if_True option.inject)
    from takeWhile_is_zeros [OF zs] obtain n where n: "?zs = replicate (Suc n) CHR ''0''"
      by blast
    have "cs = ?zs @ ?r"
      by (simp only: takeWhile_dropWhile_id)
    with n r have "cs = replicate (Suc n) CHR ''0'' @ rest"
      by (simp only:)
    with Cons True have "v = ''.'' @ replicate (Suc n) CHR ''0'' @ rest"
      by (simp only: append_Cons append_Nil)
    moreover from e r have "rest = [] \<or> rest = [newline]"
      by (simp only:)
    ultimately show ?thesis by blast
  qed
qed

lemma integer_regex_sub_frame:
  "integer_regex_sub v = v
   \<or> (\<exists>s n. v = s @ ''.'' @ replicate (Suc n) CHR ''0'')
   \<or> (\<exists>s n. v = s @ ''.'' @ replicate (Suc n) CHR ''0'' @ [newline])"
proof (induction v)
  case Nil
  show ?case by simp
next
  case (Cons c cs)
  show ?case
  proof (cases "integer_regex_match (c # cs)")
    case None
    from Cons consider (same) "integer_regex_sub cs = cs"
      | (run) s n where "cs = s @ ''.'' @ replicate (Suc n) CHR ''0''"
      | (line) s n where "cs = s @ ''.'' @ replicate (Suc n) CHR ''0'' @ [newline]"
      by blast
    then show ?thesis
    proof cases
      case same
      with None show ?thesis by simp
    next
      case run
      then have "c # cs = (c # s) @ ''.'' @ replicate (Suc n) CHR ''0''" by simp
      then show ?thesis by blast
    next
      case line
      then have "c # cs = (c # s) @ ''.'' @ replicate (Suc n) CHR ''0'' @ [newline]" by simp
      then show ?thesis by blast
    qed
  next
    case (Some rest)
    from integer_regex_match_shape [OF Some]
    obtain n where v: "c # cs = ''.'' @ replicate (Suc n) CHR ''0'' @ rest"
      and e: "rest = [] \<or> rest = [newline]"
      by blast
    from e show ?thesis
    proof
      assume "rest = []"
      with v have "c # cs = [] @ ''.'' @ replicate (Suc n) CHR ''0''" by simp
      then show ?thesis by blast
    next
      assume "rest = [newline]"
      with v have "c # cs = [] @ ''.'' @ replicate (Suc n) CHR ''0'' @ [newline]" by simp
      then show ?thesis by blast
    qed
  qed
qed

lemma sub_42_0_0: "integer_regex_sub ''42.0.0'' = ''42.0''"
  by code_simp

lemma int_42_0: "py_int ''42.0'' = None"
  by code_simp

lemma sub_42_00: "integer_regex_sub ''42.00'' = ''42''"
  by code_simp

lemma int_42: "py_int ''42'' = Some 42"
  by code_simp

lemma format_42: "format_integer 42 = ''42''"
  by code_simp

lemma sub_42_5: "integer_regex_sub ''42.5'' = ''42.5''"
  by code_simp

lemma int_42_5: "py_int ''42.5'' = None"
  by code_simp

lemma sub_420: "integer_regex_sub ''420'' = ''420''"
  by code_simp

lemma int_420: "py_int ''420'' = Some 420"
  by code_simp

lemma format_420: "format_integer 420 = ''420''"
  by code_simp

text \<open>
  C6, as amended. The strip step of the integer normaliser is
  \<^verbatim>\<open>regex.sub("", value, 1)\<close> with the expression \<^verbatim>\<open>\.0+$\<close>, and the theorem says what it does to
  every value.

  \<^item> A value that ends in a point and one or more zeros loses that run, whatever comes
    before it: \<open>s.0\<dots>0\<close> becomes \<open>s\<close>.
  \<^item> The \<^verbatim>\<open>$\<close> of the expression also matches before a newline that ends the value, so
    \<open>s.0\<dots>0\<close> followed by one final newline becomes \<open>s\<close> followed by the newline.
  \<^item> Every value of neither shape is left as it is: for every value \<open>v\<close>, the strip
    step returns \<open>v\<close> itself, or \<open>v\<close> has one of the two shapes. The point of such a
    shape is the last point of the value, so the three parts together fix the result
    of the strip step for every value, and at most one run is removed.

  So \<^verbatim>\<open>42.00\<close> gives \<^verbatim>\<open>42\<close>, and \<^verbatim>\<open>420\<close> gives \<^verbatim>\<open>420\<close>, no zero of it being removed.
  \<^verbatim>\<open>42.0.0\<close> loses its last \<^verbatim>\<open>.0\<close> and becomes \<^verbatim>\<open>42.0\<close>, which does not parse as an integer:
  an \<^verbatim>\<open>integer\<close> issue is logged with the value \<^verbatim>\<open>42.0\<close> and the result is the empty
  string. \<^verbatim>\<open>42.5\<close> is left as it is by the strip step and does not parse either: the
  issue is logged with the value \<^verbatim>\<open>42.5\<close>.
\<close>

theorem integer_strips_trailing_run:
  "integer_regex_sub (s @ ''.'' @ replicate (Suc n) CHR ''0'') = s
   \<and> integer_regex_sub (s @ ''.'' @ replicate (Suc n) CHR ''0'' @ [newline]) = s @ [newline]
   \<and> (integer_regex_sub v = v
        \<or> (\<exists>s n. v = s @ ''.'' @ replicate (Suc n) CHR ''0'')
        \<or> (\<exists>s n. v = s @ ''.'' @ replicate (Suc n) CHR ''0'' @ [newline]))
   \<and> normalise_integer field ''42.00'' st = Return ''42'' st
   \<and> normalise_integer field ''420'' st = Return ''420'' st
   \<and> integer_regex_sub ''42.0.0'' = ''42.0''
   \<and> normalise_integer field ''42.0.0'' st = Return [] (log_issue field ''integer'' ''42.0'' st)
   \<and> integer_regex_sub ''42.5'' = ''42.5''
   \<and> normalise_integer field ''42.5'' st = Return [] (log_issue field ''integer'' ''42.5'' st)"
proof -
  have r: "integer_regex_sub (s @ ''.'' @ replicate (Suc n) CHR ''0'') = s"
    using integer_regex_sub_run [of "[]" s n] by (simp del: replicate_Suc)
  have l: "integer_regex_sub (s @ ''.'' @ replicate (Suc n) CHR ''0'' @ [newline])
             = s @ [newline]"
    using integer_regex_sub_run [of "[newline]" s n] by (simp del: replicate_Suc)
  have a: "normalise_integer field ''42.00'' st = Return ''42'' st"
    unfolding normalise_integer_def
    by (simp only: sub_42_00 int_42 format_42 Let_def option.case)
  have a': "normalise_integer field ''420'' st = Return ''420'' st"
    unfolding normalise_integer_def
    by (simp only: sub_420 int_420 format_420 Let_def option.case)
  have b: "normalise_integer field ''42.0.0'' st
             = Return [] (log_issue field ''integer'' ''42.0'' st)"
    unfolding normalise_integer_def
    by (simp only: sub_42_0_0 int_42_0 Let_def option.case)
  have c: "normalise_integer field ''42.5'' st
             = Return [] (log_issue field ''integer'' ''42.5'' st)"
    unfolding normalise_integer_def
    by (simp only: sub_42_5 int_42_5 Let_def option.case)
  show ?thesis
    using r l integer_regex_sub_frame [of v] a a' sub_42_0_0 b sub_42_5 c by (intro conjI)
qed

text \<open>
  C6 as it is stated says that the strip step leaves \<^verbatim>\<open>42.0.0\<close> untouched. It does not.
\<close>

theorem integer_strip_changes_42_0_0: "integer_regex_sub ''42.0.0'' \<noteq> ''42.0.0''"
  by code_simp

subsection \<open>Defaults\<close>

lemma default_fill_result:
  assumes "set ks \<subseteq> dom (map_of out)" and "set ks \<subseteq> dom (map_of (default_values st))"
  shows "\<exists>out'. default_fill ks out st = Return out' st
           \<and> (\<forall>f. map_of out' f =
                  (if f \<in> set ks \<and> map_of out f = Some []
                   then map_of (default_values st) f else map_of out f))"
  using assms
proof (induction ks arbitrary: out)
  case Nil
  then show ?case by simp
next
  case (Cons k ks)
  from Cons.prems obtain v where v: "map_of out k = Some v" by auto
  from Cons.prems obtain s where s: "map_of (default_values st) k = Some s" by auto
  show ?case
  proof (cases "v = []")
    case True
    have "set ks \<subseteq> dom (map_of (setitem out k s))"
      using Cons.prems by (auto simp: map_of_setitem)
    with Cons.IH [of "setitem out k s"] Cons.prems
    obtain out' where o: "default_fill ks (setitem out k s) st = Return out' st"
      and m: "\<forall>f. map_of out' f =
                  (if f \<in> set ks \<and> map_of (setitem out k s) f = Some []
                   then map_of (default_values st) f else map_of (setitem out k s) f)"
      by auto
    have "default_fill (k # ks) out st = Return out' st"
      using True v s o by (simp add: getitem_Some)
    moreover have "\<forall>f. map_of out' f =
                  (if f \<in> set (k # ks) \<and> map_of out f = Some []
                   then map_of (default_values st) f else map_of out f)"
      using m True v s by (auto simp: map_of_setitem)
    ultimately show ?thesis by blast
  next
    case False
    from Cons.IH [of out] Cons.prems
    obtain out' where o: "default_fill ks out st = Return out' st"
      and m: "\<forall>f. map_of out' f =
                  (if f \<in> set ks \<and> map_of out f = Some []
                   then map_of (default_values st) f else map_of out f)"
      by auto
    have "default_fill (k # ks) out st = Return out' st"
      using False v o by (simp add: getitem_Some)
    moreover have "\<forall>f. map_of out' f =
                  (if f \<in> set (k # ks) \<and> map_of out f = Some []
                   then map_of (default_values st) f else map_of out f)"
      using m False v by auto
    ultimately show ?thesis by blast
  qed
qed

lemma default_commit_result:
  assumes "set ds \<subseteq> dom (map_of out)"
  shows "\<exists>st'. default_commit ds out st = Return out st'
           \<and> (\<forall>f. map_of (default_values st') f =
                  (if f \<in> set ds then map_of out f else map_of (default_values st) f))"
  using assms
proof (induction ds arbitrary: st)
  case Nil
  then show ?case by simp
next
  case (Cons k ds)
  from Cons.prems obtain v where v: "map_of out k = Some v" by auto
  let ?st = "st\<lparr>default_values := setitem (default_values st) k v\<rparr>"
  from Cons.IH [of ?st] Cons.prems
  obtain st' where c: "default_commit ds out ?st = Return out st'"
    and m: "\<forall>f. map_of (default_values st') f =
                  (if f \<in> set ds then map_of out f else map_of (default_values ?st) f)"
    by auto
  have "default_commit (k # ds) out st = Return out st'"
    using v c by (simp add: getitem_Some)
  moreover have "\<forall>f. map_of (default_values st') f =
                  (if f \<in> set (k # ds) then map_of out f else map_of (default_values st) f)"
    using m v by (auto simp: map_of_setitem)
  ultimately show ?case by blast
qed

lemma carry_rows_run:
  "main example_env carry_schema carry_rows [] [] []
     = Return ()
         \<lparr>row_number = 5, log_rows = [],
          output_rows = [[''X''], [''X''], [''X''], [''Y''], [''Y'']],
          field_global = Some ''F'', organisation_uri = [], field_enum = [],
          field_value = [], default_values = [(''F'', ''Y'')]\<rparr>"
  by code_simp

text \<open>
  C7. For a field of the schema's duplicate list, a row is first filled from the
  stored state and the state is then set from the row: when the row holds the fields
  the loops read, the row's empty value is replaced by the value stored for the field,
  if one is stored, and the value stored afterwards is the row's final value, whatever
  it is. Run on the five values X, blank, blank, Y, blank of such a field, the script
  writes X, X, X, Y, Y.
\<close>

theorem carry_forward_fill_then_commit:
  assumes "field \<in> set (duplicate sch)"
    and "set (duplicate sch) \<subseteq> dom (map_of out)"
    and "dom (map_of (default_values st)) \<subseteq> dom (map_of out)"
  shows "(\<exists>out' st'. default_row sch out st = Return out' st'
            \<and> map_of out' field =
                (if map_of out field = Some [] \<and> field \<in> dom (map_of (default_values st))
                 then map_of (default_values st) field else map_of out field)
            \<and> map_of (default_values st') field = map_of out' field)
         \<and> main example_env carry_schema carry_rows [] [] []
             = Return ()
                 \<lparr>row_number = 5, log_rows = [],
                  output_rows = [[''X''], [''X''], [''X''], [''Y''], [''Y'']],
                  field_global = Some ''F'', organisation_uri = [], field_enum = [],
                  field_value = [], default_values = [(''F'', ''Y'')]\<rparr>"
proof -
  have keys: "set (map fst (default_values st)) = dom (map_of (default_values st))"
    by (simp add: dom_map_of_conv_image_fst)
  from assms(3) keys have k1: "set (map fst (default_values st)) \<subseteq> dom (map_of out)"
    by simp
  from keys have k2: "set (map fst (default_values st)) \<subseteq> dom (map_of (default_values st))"
    by simp
  from default_fill_result [OF k1 k2]
  obtain out' where f: "default_fill (map fst (default_values st)) out st = Return out' st"
    and fm: "\<forall>f. map_of out' f =
                  (if f \<in> set (map fst (default_values st)) \<and> map_of out f = Some []
                   then map_of (default_values st) f else map_of out f)"
    by blast
  have "dom (map_of out) \<subseteq> dom (map_of out')"
    using fm k2 by (auto simp: dom_def split: if_splits)
  with assms(2) have "set (duplicate sch) \<subseteq> dom (map_of out')" by blast
  from default_commit_result [OF this, of st]
  obtain st' where c: "default_commit (duplicate sch) out' st = Return out' st'"
    and cm: "\<forall>f. map_of (default_values st') f =
                  (if f \<in> set (duplicate sch) then map_of out' f
                   else map_of (default_values st) f)"
    by blast
  have r: "default_row sch out st = Return out' st'"
    using f c by (simp add: default_row_def)
  have v: "map_of out' field =
                (if map_of out field = Some [] \<and> field \<in> dom (map_of (default_values st))
                 then map_of (default_values st) field else map_of out field)"
    using fm keys by auto
  have d: "map_of (default_values st') field = map_of out' field"
    using cm assms(1) by simp
  from r v d have "\<exists>out' st'. default_row sch out st = Return out' st'
            \<and> map_of out' field =
                (if map_of out field = Some [] \<and> field \<in> dom (map_of (default_values st))
                 then map_of (default_values st) field else map_of out field)
            \<and> map_of (default_values st') field = map_of out' field"
    by blast
  then show ?thesis using carry_rows_run by (intro conjI)
qed

text \<open>
  The theorem of C7 at a blank row that follows a row with the value X.
\<close>

theorem carry_forward_fill_then_commit_witness:
  "''F'' \<in> set (duplicate carry_schema)
   \<and> set (duplicate carry_schema) \<subseteq> dom (map_of [(''F'', [])])
   \<and> dom (map_of (default_values (initial_state\<lparr>default_values := [(''F'', ''X'')]\<rparr>)))
       \<subseteq> dom (map_of [(''F'', [])])
   \<and> (\<exists>out' st'.
         default_row carry_schema [(''F'', [])] (initial_state\<lparr>default_values := [(''F'', ''X'')]\<rparr>)
           = Return out' st'
         \<and> map_of out' ''F'' = Some ''X'' \<and> map_of (default_values st') ''F'' = Some ''X'')"
proof -
  have a: "''F'' \<in> set (duplicate carry_schema)"
    by (simp add: carry_schema_def)
  have b: "set (duplicate carry_schema) \<subseteq> dom (map_of [(''F'', [])])"
    by (simp add: carry_schema_def)
  have c: "dom (map_of (default_values (initial_state\<lparr>default_values := [(''F'', ''X'')]\<rparr>)))
       \<subseteq> dom (map_of [(''F'', [])])"
    by simp
  from carry_forward_fill_then_commit [OF a b c]
  have "\<exists>out' st'.
         default_row carry_schema [(''F'', [])] (initial_state\<lparr>default_values := [(''F'', ''X'')]\<rparr>)
           = Return out' st'
         \<and> map_of out' ''F'' = Some ''X'' \<and> map_of (default_values st') ''F'' = Some ''X''"
    by (simp del: ex_simps) metis
  with a b c show ?thesis by (intro conjI)
qed

subsection \<open>Dates\<close>

lemma try_patterns_first:
  "i < length ps \<Longrightarrow> strptime v (ps ! i) = Some d \<Longrightarrow>
   \<forall>j<i. strptime v (ps ! j) = None \<Longrightarrow> try_patterns ps v = Some (strftime d)"
proof (induction ps arbitrary: i)
  case Nil
  then show ?case by simp
next
  case (Cons p ps)
  show ?case
  proof (cases i)
    case 0
    with Cons.prems show ?thesis by simp
  next
    case (Suc k)
    with Cons.prems have "strptime v p = None" by auto
    moreover from Suc Cons.prems have "try_patterns ps v = Some (strftime d)"
      by (intro Cons.IH [of k]) auto
    ultimately show ?thesis by simp
  qed
qed

lemma length_date_patterns: "length date_patterns = 28"
  by (simp add: date_patterns_def)

lemma uk_pattern: "date_patterns ! 19 = ''%d/%m/%Y''"
  by (simp add: date_patterns_def)

lemma us_pattern_last: "last date_patterns = ''%m/%d/%Y''"
  by (simp add: date_patterns_def)

lemma date_strip_example: "date_strip ''01/02/2020'' = ''01/02/2020''"
  by code_simp

lemma try_example: "try_patterns date_patterns ''01/02/2020'' = Some ''2020-02-01''"
  by code_simp

lemma us_reading:
  "strptime ''01/02/2020'' ''%m/%d/%Y'' = Some \<lparr>year = 2020, month = 1, day = 2\<rparr>"
  by code_simp

lemma uk_reading:
  "strptime ''01/02/2020'' ''%d/%m/%Y'' = Some \<lparr>year = 2020, month = 2, day = 1\<rparr>"
  by code_simp

lemma before_list:
  "list_all (\<lambda>p. strptime ''01/02/2020'' p = None) (take 19 date_patterns)"
  by code_simp

lemma before_uk: "\<forall>j<19. strptime ''01/02/2020'' (date_patterns ! j) = None"
proof -
  from before_list have "\<forall>j<length (take 19 date_patterns).
               strptime ''01/02/2020'' (take 19 date_patterns ! j) = None"
    by (simp only: list_all_length)
  then show ?thesis by (simp add: length_date_patterns)
qed

lemma normalise_date_example:
  "normalise_date context ''01/02/2020'' st = Return ''2020-02-01'' st"
  using date_strip_example try_example
  by (simp add: normalise_date_def date_strip_def)

text \<open>
  C8. The date normaliser tries its patterns in the order of the list, and the first
  one that parses the stripped value decides: when a pattern parses it and no earlier
  one does, the result is that pattern's date. The month-first pattern
  \<^verbatim>\<open>%m/%d/%Y\<close> is the last of the list, and \<^verbatim>\<open>01/02/2020\<close> gives \<^verbatim>\<open>2020-02-01\<close>.
\<close>

theorem date_first_pattern_wins:
  assumes "i < length date_patterns"
    and "strptime (date_strip fieldvalue) (date_patterns ! i) = Some d"
    and "\<forall>j<i. strptime (date_strip fieldvalue) (date_patterns ! j) = None"
  shows "normalise_date context fieldvalue st = Return (strftime d) st
         \<and> last date_patterns = ''%m/%d/%Y''
         \<and> normalise_date context ''01/02/2020'' st = Return ''2020-02-01'' st"
proof -
  from assms have "try_patterns date_patterns (date_strip fieldvalue) = Some (strftime d)"
    by (rule try_patterns_first)
  then have "normalise_date context fieldvalue st = Return (strftime d) st"
    by (simp add: normalise_date_def date_strip_def)
  then show ?thesis
    using us_pattern_last normalise_date_example by (intro conjI)
qed

text \<open>
  The theorem of C8 at \<^verbatim>\<open>01/02/2020\<close>: the day-first pattern is the twentieth of the list,
  it parses the value as the first of February, none of the nineteen before it parses
  the value, and the month-first pattern, which would read the second of January, is
  not reached.
\<close>

theorem date_first_pattern_wins_witness:
  "19 < length date_patterns
   \<and> date_patterns ! 19 = ''%d/%m/%Y''
   \<and> strptime (date_strip ''01/02/2020'') (date_patterns ! 19)
       = Some \<lparr>year = 2020, month = 2, day = 1\<rparr>
   \<and> list_all (\<lambda>p. strptime (date_strip ''01/02/2020'') p = None) (take 19 date_patterns)
   \<and> strptime ''01/02/2020'' (last date_patterns) = Some \<lparr>year = 2020, month = 1, day = 2\<rparr>
   \<and> normalise_date ''StartDate'' ''01/02/2020'' initial_state
       = Return (strftime \<lparr>year = 2020, month = 2, day = 1\<rparr>) initial_state
   \<and> strftime \<lparr>year = 2020, month = 2, day = 1\<rparr> = ''2020-02-01''"
proof -
  have a: "19 < length date_patterns" by (simp add: length_date_patterns)
  have b: "strptime (date_strip ''01/02/2020'') (date_patterns ! 19)
       = Some \<lparr>year = 2020, month = 2, day = 1\<rparr>"
    by (simp only: date_strip_example uk_pattern uk_reading)
  have c: "\<forall>j<19. strptime (date_strip ''01/02/2020'') (date_patterns ! j) = None"
    using before_uk by (simp only: date_strip_example)
  have c': "list_all (\<lambda>p. strptime (date_strip ''01/02/2020'') p = None)
              (take 19 date_patterns)"
    using before_list by (simp only: date_strip_example)
  have e: "strptime ''01/02/2020'' (last date_patterns)
             = Some \<lparr>year = 2020, month = 1, day = 2\<rparr>"
    by (simp only: us_pattern_last us_reading)
  have f: "strftime \<lparr>year = 2020, month = 2, day = 1\<rparr> = ''2020-02-01''"
    by code_simp
  from date_first_pattern_wins [OF a b c, of "''StartDate''" initial_state]
  have g: "normalise_date ''StartDate'' ''01/02/2020'' initial_state
       = Return (strftime \<lparr>year = 2020, month = 2, day = 1\<rparr>) initial_state"
    by blast
  show ?thesis
    using a uk_pattern b c' e g f by (intro conjI)
qed

subsection \<open>The enum patch\<close>

lemma map_of_setdefault:
  "map_of (setdefault d k v) = (if map_of d k = None then (map_of d)(k \<mapsto> v) else map_of d)"
  by (auto simp: setdefault_def map_add_def fun_eq_iff split: option.splits)

lemma load_enum_patch_keeps:
  "field_enum (result_state (load_enum_patch rows st)) = field_enum st
   \<and> same_files st (result_state (load_enum_patch rows st))"
proof (induction rows arbitrary: st)
  case Nil
  show ?case by (simp add: result_state_def same_files_def)
next
  case (Cons row rows)
  show ?case
    using Cons [of "st\<lparr>field_value := fv\<rparr>" for fv]
    by (auto simp: result_state_def same_files_def getitem_def Let_def split: option.splits)
qed

lemma declares_field_value [simp]: "declares r (st\<lparr>field_value := x\<rparr>) = declares r st"
  by (simp add: declares_def cong: option.case_cong prod.case_cong)

lemma load_enum_patch_good_prefix:
  "list_all (\<lambda>r. declares r st) before \<Longrightarrow>
   \<exists>st'. load_enum_patch (before @ rest) st = load_enum_patch rest st'
         \<and> field_enum st' = field_enum st \<and> same_files st st'"
proof (induction before arbitrary: st)
  case Nil
  show ?case by (auto simp: same_files_def)
next
  case (Cons row before)
  from Cons.prems obtain f e v d where r: "map_of row ''field'' = Some f"
      "map_of row ''enum'' = Some e" "map_of row ''value'' = Some v"
      "map_of (field_enum st) f = Some d" "map_of d e \<noteq> None"
    by (auto simp: declares_def split: option.splits)
  let ?st = "st\<lparr>field_value :=
               setitem (setdefault (field_value st) f []) f
                 (setitem (get (setdefault (field_value st) f []) f [])
                    (normalise_enum_value v) e)\<rparr>"
  have step: "load_enum_patch ((row # before) @ rest) st = load_enum_patch (before @ rest) ?st"
    using r by (auto simp: getitem_def Let_def)
  have "list_all (\<lambda>r. declares r ?st) before"
    using Cons.prems by simp
  from Cons.IH [OF this]
  obtain st' where "load_enum_patch (before @ rest) ?st = load_enum_patch rest st'"
    "field_enum st' = field_enum ?st" "same_files ?st st'"
    by blast
  with step show ?case
    by (auto simp: same_files_def)
qed

lemma load_enum_patch_undeclared:
  assumes "map_of row ''field'' = Some f" and "map_of row ''enum'' = Some e"
    and "map_of row ''value'' = Some v" and "e \<notin> enum_keys st f"
  shows "load_enum_patch (row # rest) st
           = Raise (if map_of (field_enum st) f = None then KeyError f else invalid_enum f e) st"
  using assms
  by (auto simp: getitem_def enum_keys_def dom_def split: option.splits)

lemma load_organisation_rows_keeps:
  "field_enum (result_state (load_organisation_rows rows organisation st)) = field_enum st
   \<and> same_files st (result_state (load_organisation_rows rows organisation st))"
proof (induction rows arbitrary: organisation st)
  case Nil
  show ?case by (simp add: result_state_def same_files_def)
next
  case (Cons row rows)
  show ?case
    using Cons [of _ "st\<lparr>organisation_uri := ix\<rparr>" for ix] Cons [of _ st]
    by (auto simp: result_state_def same_files_def getitem_def Let_def split: option.splits)
qed

lemma load_organisation_patch_keeps:
  "field_enum (result_state (load_organisation_patch rows organisation st)) = field_enum st
   \<and> same_files st (result_state (load_organisation_patch rows organisation st))"
proof (induction rows arbitrary: st)
  case Nil
  show ?case by (simp add: result_state_def same_files_def)
next
  case (Cons row rows)
  show ?case
    using Cons [of "st\<lparr>organisation_uri := ix\<rparr>" for ix] Cons [of st]
    by (auto simp: result_state_def same_files_def getitem_def Let_def split: option.splits)
qed

lemma load_organisations_keeps:
  assumes "load_organisations cache patch st = Return u st'"
  shows "field_enum st' = field_enum st \<and> same_files st st'"
proof -
  from assms obtain organisation st1 where
    a: "load_organisation_rows cache [] st = Return organisation st1"
    and b: "load_organisation_patch patch organisation st1 = Return u st'"
    by (auto simp: load_organisations_def split: result.splits)
  from load_organisation_rows_keeps [of cache "[]" st] a
  have "field_enum st1 = field_enum st \<and> same_files st st1"
    by (simp add: result_state_def)
  moreover from load_organisation_patch_keeps [of patch organisation st1] b
  have "field_enum st' = field_enum st1 \<and> same_files st1 st'"
    by (simp add: result_state_def)
  ultimately show ?thesis by (auto simp: same_files_def)
qed

lemma load_enums_keys:
  "map_of (field_enum st) fieldname \<noteq> None \<Longrightarrow>
   same_files st (load_enums fieldname es st)
   \<and> dom (map_of (field_enum (load_enums fieldname es st))) = dom (map_of (field_enum st))
   \<and> enum_keys (load_enums fieldname es st) f
       = (if f = fieldname then enum_keys st f \<union> set es else enum_keys st f)"
proof (induction es arbitrary: st)
  case Nil
  show ?case by (simp add: same_files_def)
next
  case (Cons e es)
  let ?st = "st\<lparr>field_enum :=
                   setitem (field_enum st) fieldname
                     (setitem (get (field_enum st) fieldname []) e e),
                 field_value :=
                   setitem (field_value st) fieldname
                     (setitem (get (field_value st) fieldname [])
                        (normalise_enum_value e) e)\<rparr>"
  have p: "map_of (field_enum ?st) fieldname \<noteq> None"
    by (simp add: map_of_setitem)
  have k: "enum_keys ?st f = (if f = fieldname then insert e (enum_keys st f) else enum_keys st f)"
    using Cons.prems by (auto simp: enum_keys_def map_of_setitem get_def)
  have d: "dom (map_of (field_enum ?st)) = dom (map_of (field_enum st))"
    using Cons.prems by (auto simp: map_of_setitem)
  from Cons.IH [OF p] k d show ?case
    by (auto simp: same_files_def)
qed

lemma load_schema_enums_keys:
  "same_files st (load_schema_enums fs st)
   \<and> dom (map_of (field_enum (load_schema_enums fs st)))
       = dom (map_of (field_enum st)) \<union> {f. constrained fs f}
   \<and> enum_keys (load_schema_enums fs st) f = enum_keys st f \<union> declared_enums fs f"
proof (induction fs arbitrary: st)
  case Nil
  show ?case by (simp add: same_files_def constrained_def declared_enums_def)
next
  case (Cons fld fs)
  show ?case
  proof (cases "constraints_enum fld")
    case None
    with Cons [of st] show ?thesis
      by (auto simp: constrained_def declared_enums_def get_enums_def)
  next
    case (Some es)
    let ?st0 = "st\<lparr>field_enum := setdefault (field_enum st) (name fld) [],
                    field_value := setdefault (field_value st) (name fld) []\<rparr>"
    let ?st1 = "load_enums (name fld) es ?st0"
    have p: "map_of (field_enum ?st0) (name fld) \<noteq> None"
      by (simp add: map_of_setdefault)
    have k0: "enum_keys ?st0 f = enum_keys st f"
      by (auto simp: enum_keys_def map_of_setdefault split: option.splits)
    have d0: "dom (map_of (field_enum ?st0)) = insert (name fld) (dom (map_of (field_enum st)))"
      by (auto simp: map_of_setdefault split: if_splits)
    from load_enums_keys [OF p, of es f]
    have s1: "same_files ?st0 ?st1"
      and d1: "dom (map_of (field_enum ?st1)) = dom (map_of (field_enum ?st0))"
      and k1: "enum_keys ?st1 f
                 = (if f = name fld then enum_keys ?st0 f \<union> set es else enum_keys ?st0 f)"
      by blast+
    have r: "load_schema_enums (fld # fs) st = load_schema_enums fs ?st1"
      using Some by simp
    from Cons [of ?st1] s1 d1 k1 k0 d0 Some show ?thesis
      unfolding r
      by (auto simp: same_files_def constrained_def declared_enums_def get_enums_def)
  qed
qed

lemma undeclared_enum_aborts:
  assumes org: "load_organisations organisations organisation_patch initial_state = Return u st0"
    and patch: "enum_patch = before @ row # rest"
    and before: "list_all (\<lambda>r. declares r (load_schema_enums (schema_fields sch) st0)) before"
    and row: "map_of row ''field'' = Some f" "map_of row ''enum'' = Some e"
      "map_of row ''value'' = Some v"
    and undeclared: "e \<notin> declared_enums (schema_fields sch) f"
  shows "aborted_before_rows
           (main ev sch reader organisations organisation_patch enum_patch)
           (if constrained (schema_fields sch) f then invalid_enum f e else KeyError f)"
proof -
  let ?st1 = "load_schema_enums (schema_fields sch) st0"
  from load_organisations_keeps [OF org]
  have o: "field_enum st0 = []" "same_files initial_state st0"
    by (simp_all add: initial_state_def)
  from load_schema_enums_keys [of st0 "schema_fields sch" f] o
  have s: "same_files st0 ?st1"
    and d: "dom (map_of (field_enum ?st1)) = {f. constrained (schema_fields sch) f}"
    and k: "enum_keys ?st1 f = declared_enums (schema_fields sch) f"
    by (auto simp: enum_keys_def)
  from load_enum_patch_good_prefix [OF before, of "row # rest"]
  obtain st2 where p: "load_enum_patch (before @ row # rest) ?st1 = load_enum_patch (row # rest) st2"
    and fe: "field_enum st2 = field_enum ?st1" and sf: "same_files ?st1 st2"
    by blast
  from k fe undeclared have "e \<notin> enum_keys st2 f"
    by (simp add: enum_keys_def)
  from load_enum_patch_undeclared [OF row this, of rest]
  have "load_enum_patch (row # rest) st2
           = Raise (if map_of (field_enum st2) f = None then KeyError f else invalid_enum f e) st2" .
  moreover have "map_of (field_enum st2) f = None \<longleftrightarrow> \<not> constrained (schema_fields sch) f"
  proof -
    from d have "f \<in> dom (map_of (field_enum ?st1)) \<longleftrightarrow> constrained (schema_fields sch) f"
      by simp
    with fe show ?thesis
      by (cases "map_of (field_enum ?st1) f") (auto simp: domIff)
  qed
  ultimately have "load_field_value sch enum_patch st0
           = Raise (if constrained (schema_fields sch) f then invalid_enum f e else KeyError f) st2"
    using p patch by (simp add: load_field_value_def)
  moreover have "output_rows st2 = [] \<and> log_rows st2 = [] \<and> row_number st2 = 0"
    using o s sf by (simp add: same_files_def initial_state_def)
  ultimately show ?thesis
    using org by (simp add: main_def aborted_before_rows_def)
qed

lemma undeclared_field_run:
  "aborted_before_rows
     (main example_env example_schema [example_row [] [] []] [] []
        [patch_row ''SiteReference'' ''owned by a public authority'' ''public''])
     (KeyError ''SiteReference'')"
  by code_simp

lemma undeclared_token_run:
  "aborted_before_rows
     (main example_env example_schema [example_row [] [] []] [] []
        [patch_row ''OwnershipStatus'' ''public'' ''owned by the council''])
     (ValueError (''invalid '' @ quote @ ''OwnershipStatus'' @ quote @ '' enum '' @ quote
                  @ ''public'' @ quote @ '' in patch/enum.csv''))"
  by code_simp

text \<open>
  C9. The claim is that a patch row whose enum is not declared for its field stops
  the run before any record is read, with an error that names the field and the enum.
  For a field that declares enums the script does so: the error is the
  \<^verbatim>\<open>ValueError\<close> with both names. For a field that declares none, such as
  \<^verbatim>\<open>SiteReference\<close> in the example schema, the lookup \<^verbatim>\<open>field_enum[fieldname]\<close> fails
  before the test is made, and the error is a \<^verbatim>\<open>KeyError\<close> that names the field only.
  In both runs nothing is written to the output or to the log. The two runs are
  instances of \<open>undeclared_enum_aborts\<close>, which says the same of every schema and of
  the first row of any patch that names an undeclared enum.
\<close>

theorem enum_patch_unknown_field_key_error:
  "aborted_before_rows
     (main example_env example_schema [example_row [] [] []] [] []
        [patch_row ''SiteReference'' ''owned by a public authority'' ''public''])
     (KeyError ''SiteReference'')
   \<and> aborted_before_rows
     (main example_env example_schema [example_row [] [] []] [] []
        [patch_row ''OwnershipStatus'' ''public'' ''owned by the council''])
     (ValueError (''invalid '' @ quote @ ''OwnershipStatus'' @ quote @ '' enum '' @ quote
                  @ ''public'' @ quote @ '' in patch/enum.csv''))"
  using undeclared_field_run undeclared_token_run by (intro conjI)

subsection \<open>The dispatch\<close>

lemma fold_foldl_strips: "fold (\<lambda>strip v. strip v) fs v = foldl (\<lambda>v strip. strip v) v fs"
  by (induction fs arbitrary: v) simp_all

lemma normalise_dispatch:
  assumes "value \<noteq> []" and "fields sch fieldname = Some field"
  shows "normalise ev sch fieldname value st =
         run_normaliser (select_normaliser fieldname field) ev fieldname field
           (apply_strips field value) st"
  using assms
  by (simp add: normalise_def run_normaliser_def select_normaliser_def priority_def
        apply_strips_def fold_foldl_strips Let_def)

lemma select_uri:
  "fformat field = Some ''uri'' \<Longrightarrow>
   select_normaliser fieldname field \<in> {OrganisationUri, Integer, Decimal, Date, Uri}"
  by (simp add: select_normaliser_def priority_def)

text \<open>
  C10. On a non-empty value of a field of the schema, \<open>normalise\<close> runs the one
  normaliser that the priority order selects, on the value with the field's strip
  patterns applied: the organisation resolver for the field named
  \<^verbatim>\<open>OrganisationURI\<close>, then the types integer, number and date, then the format
  \<^verbatim>\<open>uri\<close>, then the extension format \<^verbatim>\<open>address\<close>, then an enum constraint, and the
  value as it is otherwise. A field of the format \<^verbatim>\<open>uri\<close> never gets the enum
  resolver, and is validated as a URI unless its name or its type selects an earlier
  normaliser.
\<close>

theorem normalise_priority_order:
  assumes "value \<noteq> []" and "fields sch fieldname = Some field"
  shows "normalise ev sch fieldname value st =
           run_normaliser (select_normaliser fieldname field) ev fieldname field
             (apply_strips field value) st
         \<and> (fformat field = Some ''uri'' \<longrightarrow>
              select_normaliser fieldname field \<in> {OrganisationUri, Integer, Decimal, Date, Uri})
         \<and> (fformat field = Some ''uri'' \<and> fieldname \<noteq> ''OrganisationURI''
              \<and> ftype field \<notin> {Some ''integer'', Some ''number'', Some ''date''} \<longrightarrow>
              normalise ev sch fieldname value st
                = normalise_uri ev fieldname (apply_strips field value) st)"
proof (intro conjI impI)
  show "normalise ev sch fieldname value st =
           run_normaliser (select_normaliser fieldname field) ev fieldname field
             (apply_strips field value) st"
    using assms by (rule normalise_dispatch)
next
  assume "fformat field = Some ''uri''"
  then show "select_normaliser fieldname field \<in> {OrganisationUri, Integer, Decimal, Date, Uri}"
    by (rule select_uri)
next
  assume "fformat field = Some ''uri'' \<and> fieldname \<noteq> ''OrganisationURI''
              \<and> ftype field \<notin> {Some ''integer'', Some ''number'', Some ''date''}"
  then have "select_normaliser fieldname field = Uri"
    by (simp add: select_normaliser_def priority_def)
  then show "normalise ev sch fieldname value st
                = normalise_uri ev fieldname (apply_strips field value) st"
    using normalise_dispatch [OF assms, of ev st] by (simp add: run_normaliser_def)
qed

text \<open>
  The theorem of C10 at the field \<^verbatim>\<open>SiteplanURL\<close> of the example schema, which declares
  the format \<^verbatim>\<open>uri\<close> and an enum constraint: a URL that is not one of its enums, and
  has a space in it, comes back without the space, and nothing is logged.
\<close>

theorem normalise_priority_order_witness:
  "''http://x.org/ a'' \<noteq> []
   \<and> fields example_schema ''SiteplanURL''
       = Some ((plain_field ''SiteplanURL'')
           \<lparr>fformat := Some ''uri'', constraints_enum := Some [''http://example.com/'']\<rparr>)
   \<and> normalise example_env example_schema ''SiteplanURL'' ''http://x.org/ a'' initial_state
       = Return ''http://x.org/a'' initial_state"
proof -
  have u: "normalise_uri example_env ''SiteplanURL'' ''http://x.org/ a'' initial_state
             = Return ''http://x.org/a'' initial_state"
    by code_simp
  have s: "apply_strips ((plain_field ''SiteplanURL'')
           \<lparr>fformat := Some ''uri'', constraints_enum := Some [''http://example.com/'']\<rparr>)
             ''http://x.org/ a'' = ''http://x.org/ a''"
    by (simp add: apply_strips_def plain_field_def)
  have n: "''http://x.org/ a'' \<noteq> []" by simp
  have c: "fformat ((plain_field ''SiteplanURL'')
           \<lparr>fformat := Some ''uri'', constraints_enum := Some [''http://example.com/'']\<rparr>)
             = Some ''uri'' \<and> ''SiteplanURL'' \<noteq> ''OrganisationURI''
           \<and> ftype ((plain_field ''SiteplanURL'')
           \<lparr>fformat := Some ''uri'', constraints_enum := Some [''http://example.com/'']\<rparr>)
             \<notin> {Some ''integer'', Some ''number'', Some ''date''}"
    by (simp add: plain_field_def)
  from normalise_priority_order [OF n siteplan_field, of example_env initial_state] c
  have "normalise example_env example_schema ''SiteplanURL'' ''http://x.org/ a'' initial_state
          = normalise_uri example_env ''SiteplanURL''
              (apply_strips ((plain_field ''SiteplanURL'')
                 \<lparr>fformat := Some ''uri'', constraints_enum := Some [''http://example.com/'']\<rparr>)
                 ''http://x.org/ a'') initial_state"
    by blast
  then have "normalise example_env example_schema ''SiteplanURL'' ''http://x.org/ a'' initial_state
          = Return ''http://x.org/a'' initial_state"
    by (simp only: s u)
  then show ?thesis
    using n siteplan_field by (intro conjI)
qed

end
